theory Spec2Isabelle
  imports Main
begin

unbundle bit_operations_syntax

section \<open>Values of the language-server protocol\<close>

text \<open>
  Offsets into a text are integers, line and column numbers are naturals.  A text
  document is an interface object: a record of its members, \<open>getTextIn\<close> being
  \<^verbatim>\<open>getText(range)\<close>.
\<close>

record position =
  line :: nat
  character :: nat

record range =
  start :: position
  end0 :: position

record textDocument =
  uri :: string
  languageId :: string
  getText :: string
  getTextIn :: "range \<Rightarrow> string"
  offsetAt :: "position \<Rightarrow> int"
  positionAt :: "int \<Rightarrow> position"

text \<open>A region of the host document, as the region cache returns it.\<close>

record languageRange =
  start :: position
  end0 :: position

record textEdit =
  range0 :: range
  newText :: string

datatype diagnosticSeverity =
  SeverityError | SeverityWarning | SeverityInformation | SeverityHint

datatype diagnosticTag = Unnecessary

text \<open>The \<open>code\<close> of a protocol diagnostic: a number, a string, or absent.\<close>

datatype diagnosticCode = NumberCode int | StringCode string | NoCode

record diagnostic =
  range0 :: range
  severity :: diagnosticSeverity
  message :: string
  tags :: "diagnosticTag list"
  code :: diagnosticCode
  source :: string

type_synonym completionItemKind = nat

definition CompletionItemKind_Method :: completionItemKind where
  "CompletionItemKind_Method = 2"

definition CompletionItemKind_Function :: completionItemKind where
  "CompletionItemKind_Function = 3"

definition CompletionItemKind_File :: completionItemKind where
  "CompletionItemKind_File = 17"

definition CompletionItemKind_Folder :: completionItemKind where
  "CompletionItemKind_Folder = 19"

datatype insertTextFormat = PlainText | Snippet

record markupContent =
  kind :: string
  "value" :: string

text \<open>The data that \<open>doComplete\<close> attaches to an item for \<open>doResolve\<close>.\<close>

record completionItemData =
  languageId :: string
  uri :: string
  offset :: int
  source :: "string option"

record completionItem =
  uri :: string
  position :: position
  preselect :: "bool option"
  label :: string
  detail :: "string option"
  filterText :: "string option"
  insertTextFormat :: "insertTextFormat option"
  sortText :: string
  kind :: completionItemKind
  textEdit :: "textEdit option"
  insertText :: "string option"
  data :: "completionItemData option"
  documentation :: "markupContent option"
  additionalTextEdits :: "textEdit list option"

record completionList =
  isIncomplete :: bool
  items :: "completionItem list"

datatype markedString =
  MarkedText string | MarkedCode string string

record hover =
  contents :: "markedString list"
  range0 :: "range option"

record parameterInformation =
  label :: string
  documentation :: string

record signatureInformation =
  label :: string
  documentation :: "string option"
  parameters :: "parameterInformation list"

record signatureHelp =
  signatures :: "signatureInformation list"
  activeSignature :: int
  activeParameter :: int

datatype documentHighlightKind = HighlightText | HighlightRead | HighlightWrite

record documentHighlight =
  range0 :: range
  kind :: documentHighlightKind

record location =
  uri :: string
  range0 :: range

type_synonym symbolKind = nat

record symbolInformation =
  name :: string
  kind :: symbolKind
  location :: location
  containerName :: "string option"

record codeActionContext =
  diagnostics :: "diagnostic list"
  only :: "string list option"

definition CodeActionKind_QuickFix :: string where
  "CodeActionKind_QuickFix = ''quickfix''"

definition CodeActionKind_Refactor :: string where
  "CodeActionKind_Refactor = ''refactor''"

definition CodeActionKind_RefactorExtract :: string where
  "CodeActionKind_RefactorExtract = ''refactor.extract''"

definition CodeActionKind_RefactorInline :: string where
  "CodeActionKind_RefactorInline = ''refactor.inline''"

definition CodeActionKind_RefactorRewrite :: string where
  "CodeActionKind_RefactorRewrite = ''refactor.rewrite''"

definition CodeActionKind_Source :: string where
  "CodeActionKind_Source = ''source''"

definition CodeActionKind_SourceOrganizeImports :: string where
  "CodeActionKind_SourceOrganizeImports = ''source.organizeImports''"

section \<open>Values of the TypeScript language service\<close>

record textSpan =
  start :: int
  length0 :: int

datatype diagnosticCategory =
  CategoryWarning | CategoryError | CategorySuggestion | CategoryMessage

text \<open>
  A compiler diagnostic carries its own \<open>start\<close> and \<open>length\<close>, so that
  \<^verbatim>\<open>diag as ts.TextSpan\<close> is its truncation to a span.
\<close>

record tsDiagnostic = textSpan +
  category :: diagnosticCategory
  messageText :: string
  code :: int
  reportsUnnecessary :: bool

record completionEntry =
  name :: string
  kind :: string
  kindModifiers :: "string option"
  sortText :: string
  insertText :: "string option"
  replacementSpan :: "textSpan option"
  isRecommended :: "bool option"
  source :: "string option"

record completionInfo =
  entries :: "completionEntry list"

record textChange =
  span :: textSpan
  newText :: string

record fileTextChanges =
  fileName :: string
  textChanges :: "textChange list"

record tsCodeAction =
  description :: string
  changes :: "fileTextChanges list"

text \<open>Display parts are kept as the list of their texts.\<close>

type_synonym displayParts = "string list"

record completionEntryDetails =
  displayParts :: "displayParts option"
  documentation :: "displayParts option"
  codeActions :: "tsCodeAction list option"

record quickInfo =
  displayParts :: "displayParts option"
  documentation :: "displayParts option"
  textSpan :: textSpan

record signatureHelpParameter =
  displayParts :: "displayParts option"
  documentation :: "displayParts option"

record signatureHelpItem =
  prefixDisplayParts :: "displayParts option"
  suffixDisplayParts :: "displayParts option"
  separatorDisplayParts :: "displayParts option"
  parameters :: "signatureHelpParameter list"

record signatureHelpItems =
  items :: "signatureHelpItem list"
  selectedItemIndex :: int
  argumentIndex :: int

record referenceEntry =
  textSpan :: textSpan
  fileName :: string
  isWriteAccess :: bool

text \<open>
  An item of the navigation bar.  \<open>childItems\<close> is a list: the code treats a missing
  and an empty array alike.
\<close>

datatype navigationBarItem =
  NavigationBarItem (text0: string) (kind: string) (spans: "textSpan list")
                    (childItems: "navigationBarItem list")

record definitionInfo =
  fileName :: string
  textSpan :: textSpan

record refactorEditInfo =
  edits :: "fileTextChanges list"

record combinedCodeActions =
  changes :: "fileTextChanges list"

record refactorActionInfo =
  name :: string
  description :: string

record applicableRefactorInfo =
  name :: string
  description :: string
  inlineable :: bool
  actions :: "refactorActionInfo list"

record codeFixAction =
  description :: string
  changes :: "fileTextChanges list"
  fixId :: "string option"
  fixAllDescription :: "string option"

record formatCodeSettings =
  convertTabsToSpaces :: "bool option"
  tabSize :: "nat option"
  indentSize :: "nat option"
  baseIndentSize :: "nat option"
  insertSpaceAfterCommaDelimiter :: "bool option"

record userPreferences =
  importModuleSpecifierEnding :: "string option"
  importModuleSpecifierPreference :: "string option"
  includeCompletionsWithInsertText :: "bool option"
  includeCompletionsForModuleExports :: "bool option"

record textRange =
  pos :: int
  end0 :: int

section \<open>Deferred code actions (\<^verbatim>\<open>types.ts\<close>)\<close>

text \<open>
  A code-action request is a tagged union: its kind determines its arguments, so the
  tag carries them (\<open>refactorName\<close>, \<open>actionName\<close>, \<open>description\<close> for a refactor
  action, \<open>fixId\<close> for a combined code fix).
\<close>

datatype codeActionReqKind =
    RefactorAction string string string
  | CombinedCodeFix string
  | OrganizeImports

record codeActionReq =
  kind :: codeActionReqKind
  fileName :: string
  textRange :: textRange
  formatSettings :: formatCodeSettings
  preferences :: userPreferences

text \<open>
  The argument of a command: the request of a deferred action, or a workspace edit whose
  \<open>changes\<close> map a file URI to its edits (keys in insertion order).
\<close>

datatype commandArgument =
    RequestArgument codeActionReq
  | WorkspaceEditArgument "(string \<times> textEdit list) list"

record command =
  title :: string
  command :: string
  arguments :: "commandArgument list"

record codeAction =
  title :: string
  kind :: string
  diagnostics :: "diagnostic list option"
  command :: command

section \<open>Syntax trees, symbols and types of the TypeScript compiler\<close>

text \<open>
  The script mode works on objects of the TypeScript compiler API.  A syntax node is a
  tagged union discriminated by its \<open>kind\<close>; the model keeps the tag together with the
  members that \<^verbatim>\<open>componentInfo.ts\<close> reads after it has tested the tag
  (\<open>expression\<close> of an export assignment, \<open>expression\<close> and \<open>arguments\<close> of a call,
  \<open>elements\<close> of an array literal, \<open>text\<close> of a string literal).  Every node also has
  its source text (\<open>getText()\<close>), its children (\<open>getChildren()\<close>) and an optional list of
  decorators.  Strings are lists of 8-bit code units.
\<close>

datatype node =
  Node (kind: syntaxKind) (getText: string) (getChildren: "node list")
       (decorators: "decorator list option")
and syntaxKind =
    ExportAssignment node
  | ClassDeclaration
  | CallExpression node "node list"
  | ObjectLiteralExpression
  | ArrayLiteralExpression "node list"
  | StringLiteral string
  | PropertyDeclaration
  | MethodDeclaration
  | GetAccessor
  | SetAccessor
  | PropertyAssignment
  | Identifier
  | OtherKind nat
and decorator =
  Decorator (expression: node)

datatype error = TypeError

text \<open>
  A \<open>ts.Symbol\<close>: \<open>valueDeclaration\<close> may be undefined, \<open>getDocumentationComment\<close> holds
  the \<open>text\<close> of each documentation part.
\<close>

record tsSymbol =
  name :: string
  valueDeclaration :: "node option"
  declarations :: "node list"
  getDocumentationComment :: "string list"

type_synonym signature = nat

text \<open>
  A \<open>ts.Type\<close>.  \<open>isClass\<close> is \<open>None\<close> when the compiler in use has no such method
  (\<^verbatim>\<open>type.isClass === undefined\<close>), otherwise the method's result.
\<close>

record tsType =
  isClass :: "bool option"
  flags :: nat
  objectFlags :: nat
  getProperties :: "tsSymbol list"
  symbol :: tsSymbol
  getCallSignatures :: "signature list"

record typeChecker =
  getTypeAtLocation :: "node \<Rightarrow> tsType"
  getPropertyOfType :: "tsType \<Rightarrow> string \<Rightarrow> tsSymbol option"
  getTypeOfSymbolAtLocation :: "tsSymbol \<Rightarrow> node \<Rightarrow> tsType"
  getPropertiesOfType :: "tsType \<Rightarrow> tsSymbol list"
  getReturnTypeOfSignature :: "signature \<Rightarrow> tsType"

text \<open>
  What the code uses of the compiler module: the two flag constants that \<open>isClassType\<close>
  reads and two string helpers.
\<close>

record tsModule =
  TypeFlags_Object :: nat
  ObjectFlags_Class :: nat
  flattenDiagnosticMessageText :: "string \<Rightarrow> string \<Rightarrow> string"
  displayPartsToString :: "displayParts option \<Rightarrow> string"

record sourceFile =
  statements :: "node list"
  getFullText :: string

record program =
  getRootFileNames :: "string list"
  getSourceFile :: "string \<Rightarrow> sourceFile option"
  getTypeChecker :: typeChecker

text \<open>
  The language service is an interface object: a record of its methods.  Its answers are
  taken as given, a call into the service never throws in the model.  The results of
  \<open>getEditsForRefactor\<close>, \<open>getCombinedCodeFix\<close> and \<open>organizeImports\<close> are optional:
  \<open>None\<close> is a null or undefined answer at run time, whatever the declared type says.
\<close>

record languageService =
  getProgram :: "program option"
  getSyntacticDiagnostics :: "string \<Rightarrow> tsDiagnostic list"
  getSemanticDiagnostics :: "string \<Rightarrow> tsDiagnostic list"
  getSuggestionDiagnostics :: "string \<Rightarrow> tsDiagnostic list"
  getCompletionsAtPosition :: "string \<Rightarrow> int \<Rightarrow> userPreferences \<Rightarrow> completionInfo option"
  getCompletionEntryDetails ::
    "string \<Rightarrow> int \<Rightarrow> string \<Rightarrow> formatCodeSettings \<Rightarrow> string option \<Rightarrow> userPreferences \<Rightarrow>
     completionEntryDetails option"
  getQuickInfoAtPosition :: "string \<Rightarrow> int \<Rightarrow> quickInfo option"
  getSignatureHelpItems :: "string \<Rightarrow> int \<Rightarrow> signatureHelpItems option"
  getOccurrencesAtPosition :: "string \<Rightarrow> int \<Rightarrow> referenceEntry list option"
  getNavigationBarItems :: "string \<Rightarrow> navigationBarItem list option"
  getDefinitionAtPosition :: "string \<Rightarrow> int \<Rightarrow> definitionInfo list option"
  getReferencesAtPosition :: "string \<Rightarrow> int \<Rightarrow> referenceEntry list option"
  getEditsForRefactor ::
    "string \<Rightarrow> formatCodeSettings \<Rightarrow> textRange \<Rightarrow> string \<Rightarrow> string \<Rightarrow> userPreferences \<Rightarrow>
     refactorEditInfo option"
  getCombinedCodeFix ::
    "string \<Rightarrow> string \<Rightarrow> formatCodeSettings \<Rightarrow> userPreferences \<Rightarrow> combinedCodeActions option"
  organizeImports ::
    "string \<Rightarrow> formatCodeSettings \<Rightarrow> userPreferences \<Rightarrow> fileTextChanges list option"
  getApplicableRefactors ::
    "string \<Rightarrow> textRange \<Rightarrow> userPreferences \<Rightarrow> applicableRefactorInfo list"
  getCodeFixesAtPosition ::
    "string \<Rightarrow> int \<Rightarrow> int \<Rightarrow> int list \<Rightarrow> formatCodeSettings \<Rightarrow> userPreferences \<Rightarrow>
     codeFixAction list"
  getFormattingEditsForRange ::
    "string \<Rightarrow> int \<Rightarrow> int \<Rightarrow> formatCodeSettings \<Rightarrow> textChange list option"

text \<open>
  The settings object (\<^verbatim>\<open>config: any\<close>) after \<open>configure\<close> has stored the editor's
  settings: each field is the value at the path of the same name below \<^verbatim>\<open>config.vetur\<close>.
\<close>

record config =
  completion_autoImport :: bool
  completion_tagCasing :: string
  format_defaultFormatter_js :: string
  format_defaultFormatter_ts :: string
  format_scriptInitialIndent :: bool
  format_options_tabSize :: nat
  format_options_useTabs :: bool
  javascript_format :: formatCodeSettings
  typescript_format :: formatCodeSettings

section \<open>Component information (\<^verbatim>\<open>componentInfo.ts\<close>)\<close>

text \<open>\<open>PropInfo\<close>, \<open>DataInfo\<close>, \<open>ComputedInfo\<close> and \<open>MethodInfo\<close> share one shape.\<close>

record memberInfo =
  name :: string
  documentation :: "string option"

datatype vueFileInfo =
  VueFileInfo (props: "memberInfo list option") (data: "memberInfo list option")
              (computed: "memberInfo list option") (methods: "memberInfo list option")
              (childComponents: "childComponent list option")
and childComponent =
  ChildComponent (name: string) (documentation: "string option") (definition0: "string option")
                 (info: "vueFileInfo option")

text \<open>What \<open>getChildComponents\<close> (\<^verbatim>\<open>childComponents.ts\<close>) returns for one child.\<close>

record internalChildComponent =
  name :: string
  documentation :: "string option"
  definition0 :: "string option"
  defaultExportNode :: "node option"

subsection \<open>Array helpers that can be interrupted by an exception\<close>

fun filterE :: "('a \<Rightarrow> error + bool) \<Rightarrow> 'a list \<Rightarrow> error + 'a list" where
  "filterE p [] = Inr []"
| "filterE p (x # xs) =
     (case p x of
        Inl e \<Rightarrow> Inl e
      | Inr b \<Rightarrow>
          (case filterE p xs of
             Inl e \<Rightarrow> Inl e
           | Inr ys \<Rightarrow> Inr (if b then x # ys else ys)))"

subsection \<open>Documentation strings\<close>

definition newline :: char where
  "newline = CHR 0x0A"

text \<open>\<open>String.prototype.split\<close> with a one-character separator: never an empty result.\<close>

fun split :: "char \<Rightarrow> string \<Rightarrow> string list" where
  "split sep [] = [[]]"
| "split sep (c # cs) =
     (if c = sep then [] # split sep cs
      else (case split sep cs of
              seg # segs \<Rightarrow> (c # seg) # segs
            | [] \<Rightarrow> [[c]]))"

text \<open>\<open>Array.prototype.join\<close>.\<close>

fun join :: "string \<Rightarrow> string list \<Rightarrow> string" where
  "join sep [] = []"
| "join sep [s] = s"
| "join sep (s # t # ss) = s @ sep @ join sep (t # ss)"

text \<open>The code units below 256 that the regular expression class \<open>\s\<close> matches.\<close>

definition isWhiteSpace :: "char \<Rightarrow> bool" where
  "isWhiteSpace c =
     (c \<in> {CHR 0x09, CHR 0x0A, CHR 0x0B, CHR 0x0C, CHR 0x0D, CHR 0x20, CHR 0xA0})"

text \<open>\<open>s.search(/\S/)\<close>: index of the first non-blank code unit, \<open>-1\<close> when there is none.\<close>

fun searchNonSpace :: "string \<Rightarrow> int" where
  "searchNonSpace [] = -1"
| "searchNonSpace (c # cs) =
     (if \<not> isWhiteSpace c then 0
      else (let r = searchNonSpace cs in if r < 0 then -1 else r + 1))"

text \<open>\<open>s.slice(k)\<close>: a negative start counts from the end of the string.\<close>

definition slice :: "string \<Rightarrow> int \<Rightarrow> string" where
  "slice s k =
     (if k < 0 then drop (nat (max (int (length s) + k) 0)) s else drop (nat k) s)"

definition formatJSLikeDocumentation :: "string \<Rightarrow> string" where
  "formatJSLikeDocumentation src =
     (let segments = split newline src in
      if length segments = 1 then src
      else
        (let spacesToDeindent = searchNonSpace (last segments) in
         hd segments @ [newline] @
           join [newline] (map (\<lambda>s. slice s spacesToDeindent) (tl segments))))"

definition buildDocumentation :: "tsSymbol \<Rightarrow> string" where
  "buildDocumentation s =
     (let documentation = join [newline] (getDocumentationComment s) @ [newline] in
      case valueDeclaration s of
        None \<Rightarrow> documentation
      | Some d \<Rightarrow>
          (if kind d = PropertyAssignment
           then documentation @ ''```js'' @ [newline] @ formatJSLikeDocumentation (getText d)
                  @ [newline] @ ''```'' @ [newline]
           else documentation @ ''```js'' @ [newline] @ formatJSLikeDocumentation (getText d)
                  @ [newline] @ ''```'' @ [newline]))"

subsection \<open>Locating the default export\<close>

definition getNodeFromExportNode :: "node \<Rightarrow> node option" where
  "getNodeFromExportNode exportExpr =
     (case kind exportExpr of
        CallExpression callee args \<Rightarrow> (case args of [] \<Rightarrow> None | a # _ \<Rightarrow> Some a)
      | ObjectLiteralExpression \<Rightarrow> Some exportExpr
      | ClassDeclaration \<Rightarrow> Some exportExpr
      | _ \<Rightarrow> None)"

definition isExportStmt :: "node \<Rightarrow> bool" where
  "isExportStmt st =
     ((case kind st of ExportAssignment e \<Rightarrow> True | _ \<Rightarrow> False) \<or> kind st = ClassDeclaration)"

definition getDefaultExportNode :: "sourceFile \<Rightarrow> node option" where
  "getDefaultExportNode sourceFile =
     (let exportStmts = filter isExportStmt (statements sourceFile) in
      case exportStmts of
        [] \<Rightarrow> None
      | st # _ \<Rightarrow>
          (let exportNode = (case kind st of ExportAssignment e \<Rightarrow> e | _ \<Rightarrow> st)
           in getNodeFromExportNode exportNode))"

definition getLastChild :: "node \<Rightarrow> node option" where
  "getLastChild d =
     (let children = getChildren d in
      if length children = 0 then None else Some (last children))"

subsection \<open>Decorators\<close>

text \<open>
  The name of a decorator: the callee's text for \<^verbatim>\<open>@Name(...)\<close>, the expression's text
  for \<^verbatim>\<open>@Name\<close>.
\<close>

definition decoratorName :: "decorator \<Rightarrow> string" where
  "decoratorName el =
     (case kind (expression el) of
        CallExpression callee args \<Rightarrow> getText callee
      | _ \<Rightarrow> getText (expression el))"

definition getPropertyDecoratorNames :: "tsSymbol \<Rightarrow> syntaxKind \<Rightarrow> error + string list" where
  "getPropertyDecoratorNames property checkSyntaxKind =
     (case valueDeclaration property of
        None \<Rightarrow> Inl TypeError
      | Some vd \<Rightarrow>
          if kind vd \<noteq> checkSyntaxKind then Inr []
          else
            (case declarations property of
               [] \<Rightarrow> Inr []
             | d # _ \<Rightarrow>
                 (case decorators d of
                    None \<Rightarrow> Inr []
                  | Some ds \<Rightarrow> Inr (map decoratorName ds))))"

definition isClassType :: "tsModule \<Rightarrow> tsType \<Rightarrow> bool" where
  "isClassType tsModule ty =
     (case isClass ty of
        None \<Rightarrow>
          ((if (flags ty AND TypeFlags_Object tsModule) \<noteq> 0 then objectFlags ty else 0)
             AND ObjectFlags_Class tsModule) \<noteq> 0
      | Some b \<Rightarrow> b)"

definition getComponentDecoratorArgumentType ::
  "tsType \<Rightarrow> typeChecker \<Rightarrow> error + tsType option" where
  "getComponentDecoratorArgumentType ty checker =
     (case declarations (symbol ty) of
        [] \<Rightarrow> Inl TypeError
      | d0 # _ \<Rightarrow>
          (case decorators d0 of
             None \<Rightarrow> Inr None
           | Some decs \<Rightarrow>
               if length decs = 0 then Inr None
               else
                 (case find (\<lambda>el. decoratorName el = ''Component'') decs of
                    None \<Rightarrow> Inr None
                  | Some componentDecorator \<Rightarrow>
                      (case kind (expression componentDecorator) of
                         CallExpression callee decoratorArguments \<Rightarrow>
                           (case decoratorArguments of
                              [] \<Rightarrow> Inr None
                            | a # _ \<Rightarrow> Inr (Some (getTypeAtLocation checker a)))
                       | _ \<Rightarrow> Inr None))))"

text \<open>\<^verbatim>\<open>x || []\<close> for an optional array.\<close>

definition orEmpty :: "'a list option \<Rightarrow> 'a list" where
  "orEmpty r = (case r of None \<Rightarrow> [] | Some xs \<Rightarrow> xs)"

definition getClassAndObjectInfo ::
  "tsModule \<Rightarrow> tsType \<Rightarrow> typeChecker \<Rightarrow> (tsType \<Rightarrow> error + 'a list option) \<Rightarrow>
   (tsType \<Rightarrow> error + 'a list option) \<Rightarrow> error + 'a list" where
  "getClassAndObjectInfo tsModule defaultExportType checker getClassResult getObjectResult =
     (if isClassType tsModule defaultExportType then
        (case getClassResult defaultExportType of
           Inl e \<Rightarrow> Inl e
         | Inr c \<Rightarrow>
             (case getComponentDecoratorArgumentType defaultExportType checker of
                Inl e \<Rightarrow> Inl e
              | Inr None \<Rightarrow> Inr (orEmpty c)
              | Inr (Some decoratorArgumentType) \<Rightarrow>
                  (case getObjectResult decoratorArgumentType of
                     Inl e \<Rightarrow> Inl e
                   | Inr ob \<Rightarrow> Inr (orEmpty c @ orEmpty ob))))
      else
        (case getObjectResult defaultExportType of
           Inl e \<Rightarrow> Inl e
         | Inr ob \<Rightarrow> Inr (orEmpty ob)))"

text \<open>\<^verbatim>\<open>result.length === 0 ? undefined : result\<close>.\<close>

definition undefinedIfEmpty :: "error + 'a list \<Rightarrow> error + 'a list option" where
  "undefinedIfEmpty r =
     (case r of Inl e \<Rightarrow> Inl e | Inr result \<Rightarrow> Inr (if length result = 0 then None else Some result))"

text \<open>An entry with built documentation, as every extractor but the array form of props makes.\<close>

definition documented :: "tsSymbol \<Rightarrow> memberInfo" where
  "documented s =
     \<lparr> memberInfo.name = tsSymbol.name s,
       memberInfo.documentation = Some (buildDocumentation s) \<rparr>"

definition startsWith :: "string \<Rightarrow> string \<Rightarrow> bool" where
  "startsWith s p = (take (length p) s = p)"

subsection \<open>Props\<close>

definition isStringLiteral :: "node \<Rightarrow> bool" where
  "isStringLiteral expr = (case kind expr of StringLiteral t \<Rightarrow> True | _ \<Rightarrow> False)"

text \<open>\<^verbatim>\<open>(expr as ts.StringLiteral).text\<close>; the code reads it only after the kind test.\<close>

definition literalText :: "node \<Rightarrow> string" where
  "literalText expr = (case kind expr of StringLiteral t \<Rightarrow> t | _ \<Rightarrow> [])"

definition getClassProps :: "tsType \<Rightarrow> error + memberInfo list option" where
  "getClassProps ty =
     (let propDecoratorNames = [''Prop'', ''Model'', ''PropSync''] in
      case filterE
             (\<lambda>property.
                case getPropertyDecoratorNames property PropertyDeclaration of
                  Inl e \<Rightarrow> Inl e
                | Inr names \<Rightarrow> Inr (list_ex (\<lambda>decoratorName. decoratorName \<in> set propDecoratorNames) names))
             (getProperties ty) of
        Inl e \<Rightarrow> Inl e
      | Inr propsSymbols \<Rightarrow>
          if length propsSymbols = 0 then Inr None
          else Inr (Some (map documented propsSymbols)))"

definition getObjectProps :: "typeChecker \<Rightarrow> tsType \<Rightarrow> error + memberInfo list option" where
  "getObjectProps checker ty =
     (case getPropertyOfType checker ty ''props'' of
        None \<Rightarrow> Inr None
      | Some propsSymbol \<Rightarrow>
          (case valueDeclaration propsSymbol of
             None \<Rightarrow> Inr None
           | Some vd \<Rightarrow>
               (case getLastChild vd of
                  None \<Rightarrow> Inr None
                | Some propsDeclaration \<Rightarrow>
                    (case kind propsDeclaration of
                       ArrayLiteralExpression elements \<Rightarrow>
                         Inr (Some
                           (map (\<lambda>expr. \<lparr> memberInfo.name = literalText expr,
                                          memberInfo.documentation = None \<rparr>)
                              (filter (\<lambda>expr. isStringLiteral expr) elements)))
                     | ObjectLiteralExpression \<Rightarrow>
                         (let propsType = getTypeOfSymbolAtLocation checker propsSymbol propsDeclaration
                          in Inr (Some (map documented (getPropertiesOfType checker propsType))))
                     | _ \<Rightarrow> Inr None))))"

definition getProps :: "tsModule \<Rightarrow> tsType \<Rightarrow> typeChecker \<Rightarrow> error + memberInfo list option" where
  "getProps tsModule defaultExportType checker =
     undefinedIfEmpty
       (getClassAndObjectInfo tsModule defaultExportType checker getClassProps
          (getObjectProps checker))"

subsection \<open>Data\<close>

definition getClassData :: "tsType \<Rightarrow> error + memberInfo list option" where
  "getClassData ty =
     (let noDataDecoratorNames = [''Prop'', ''Model'', ''Provide'', ''ProvideReactive'', ''Ref''] in
      case filterE
             (\<lambda>property.
                case getPropertyDecoratorNames property PropertyDeclaration of
                  Inl e \<Rightarrow> Inl e
                | Inr names \<Rightarrow>
                    Inr (\<not> list_ex (\<lambda>decoratorName. decoratorName \<in> set noDataDecoratorNames) names
                         \<and> \<not> startsWith (tsSymbol.name property) ''_''
                         \<and> \<not> startsWith (tsSymbol.name property) ''$''))
             (getProperties ty) of
        Inl e \<Rightarrow> Inl e
      | Inr dataSymbols \<Rightarrow>
          if length dataSymbols = 0 then Inr None
          else Inr (Some (map documented dataSymbols)))"

definition getObjectData :: "typeChecker \<Rightarrow> tsType \<Rightarrow> error + memberInfo list option" where
  "getObjectData checker ty =
     (case getPropertyOfType checker ty ''data'' of
        None \<Rightarrow> Inr None
      | Some dataSymbol \<Rightarrow>
          (case valueDeclaration dataSymbol of
             None \<Rightarrow> Inr None
           | Some vd \<Rightarrow>
               (let dataType = getTypeOfSymbolAtLocation checker dataSymbol vd;
                    dataSignatures = getCallSignatures dataType
                in case dataSignatures of
                     [] \<Rightarrow> Inr None
                   | sig0 # _ \<Rightarrow>
                       (let dataReturnTypeProperties = getReturnTypeOfSignature checker sig0
                        in Inr (Some (map documented (getProperties dataReturnTypeProperties)))))))"

definition getData :: "tsModule \<Rightarrow> tsType \<Rightarrow> typeChecker \<Rightarrow> error + memberInfo list option" where
  "getData tsModule defaultExportType checker =
     undefinedIfEmpty
       (getClassAndObjectInfo tsModule defaultExportType checker getClassData
          (getObjectData checker))"

subsection \<open>Computed\<close>

text \<open>\<^verbatim>\<open>property.valueDeclaration.kind === k\<close>, which throws on a missing declaration.\<close>

definition valueDeclarationIs :: "syntaxKind \<Rightarrow> tsSymbol \<Rightarrow> error + bool" where
  "valueDeclarationIs k property =
     (case valueDeclaration property of
        None \<Rightarrow> Inl TypeError
      | Some vd \<Rightarrow> Inr (kind vd = k))"

definition getClassComputed :: "tsType \<Rightarrow> tsType \<Rightarrow> error + memberInfo list option" where
  "getClassComputed defaultExportType ty =
     (case filterE (valueDeclarationIs GetAccessor) (getProperties ty) of
        Inl e \<Rightarrow> Inl e
      | Inr getAccessorSymbols \<Rightarrow>
          (case filterE (valueDeclarationIs SetAccessor) (getProperties defaultExportType) of
             Inl e \<Rightarrow> Inl e
           | Inr setAccessorSymbols \<Rightarrow>
               if length getAccessorSymbols = 0 then Inr None
               else
                 Inr (Some
                   (map (\<lambda>computed.
                      let setComputed =
                            find (\<lambda>setAccessor. tsSymbol.name setAccessor = tsSymbol.name computed)
                              setAccessorSymbols
                      in \<lparr> memberInfo.name = tsSymbol.name computed,
                           memberInfo.documentation =
                             Some (buildDocumentation computed @
                                   (case setComputed of
                                      Some sc \<Rightarrow> buildDocumentation sc
                                    | None \<Rightarrow> [])) \<rparr>)
                      getAccessorSymbols))))"

definition getObjectComputed :: "typeChecker \<Rightarrow> tsType \<Rightarrow> error + memberInfo list option" where
  "getObjectComputed checker ty =
     (case getPropertyOfType checker ty ''computed'' of
        None \<Rightarrow> Inr None
      | Some computedSymbol \<Rightarrow>
          (case valueDeclaration computedSymbol of
             None \<Rightarrow> Inr None
           | Some vd \<Rightarrow>
               (case getLastChild vd of
                  None \<Rightarrow> Inr None
                | Some computedDeclaration \<Rightarrow>
                    if kind computedDeclaration = ObjectLiteralExpression then
                      (let computedType =
                             getTypeOfSymbolAtLocation checker computedSymbol computedDeclaration
                       in Inr (Some (map documented (getPropertiesOfType checker computedType))))
                    else Inr None)))"

definition getComputed :: "tsModule \<Rightarrow> tsType \<Rightarrow> typeChecker \<Rightarrow> error + memberInfo list option" where
  "getComputed tsModule defaultExportType checker =
     undefinedIfEmpty
       (getClassAndObjectInfo tsModule defaultExportType checker
          (getClassComputed defaultExportType) (getObjectComputed checker))"

subsection \<open>Methods\<close>

definition isInternalHook :: "string \<Rightarrow> bool" where
  "isInternalHook methodName =
     (methodName \<in> set
        [''data'', ''beforeCreate'', ''created'', ''beforeMount'', ''mounted'',
         ''beforeDestroy'', ''destroyed'', ''beforeUpdate'', ''updated'', ''activated'',
         ''deactivated'', ''render'', ''errorCaptured'', ''serverPrefetch''])"

definition getClassMethods :: "tsType \<Rightarrow> error + memberInfo list option" where
  "getClassMethods ty =
     (case filterE
             (\<lambda>property.
                case getPropertyDecoratorNames property MethodDeclaration of
                  Inl e \<Rightarrow> Inl e
                | Inr names \<Rightarrow>
                    Inr (\<not> list_ex (\<lambda>decoratorName. decoratorName = ''Watch'') names
                         \<and> \<not> isInternalHook (tsSymbol.name property)))
             (getProperties ty) of
        Inl e \<Rightarrow> Inl e
      | Inr methodSymbols \<Rightarrow>
          if length methodSymbols = 0 then Inr None
          else Inr (Some (map documented methodSymbols)))"

definition getObjectMethods :: "typeChecker \<Rightarrow> tsType \<Rightarrow> error + memberInfo list option" where
  "getObjectMethods checker ty =
     (case getPropertyOfType checker ty ''methods'' of
        None \<Rightarrow> Inr None
      | Some methodsSymbol \<Rightarrow>
          (case valueDeclaration methodsSymbol of
             None \<Rightarrow> Inr None
           | Some vd \<Rightarrow>
               (case getLastChild vd of
                  None \<Rightarrow> Inr None
                | Some methodsDeclaration \<Rightarrow>
                    if kind methodsDeclaration = ObjectLiteralExpression then
                      (let methodsType =
                             getTypeOfSymbolAtLocation checker methodsSymbol methodsDeclaration
                       in Inr (Some (map documented (getPropertiesOfType checker methodsType))))
                    else Inr None)))"

definition getMethods :: "tsModule \<Rightarrow> tsType \<Rightarrow> typeChecker \<Rightarrow> error + memberInfo list option" where
  "getMethods tsModule defaultExportType checker =
     undefinedIfEmpty
       (getClassAndObjectInfo tsModule defaultExportType checker getClassMethods
          (getObjectMethods checker))"

subsection \<open>The analysis of one default export\<close>

definition analyzeDefaultExportExpr ::
  "tsModule \<Rightarrow> node \<Rightarrow> typeChecker \<Rightarrow> error + vueFileInfo" where
  "analyzeDefaultExportExpr tsModule defaultExport checker =
     (let defaultExportType = getTypeAtLocation checker defaultExport in
      case getProps tsModule defaultExportType checker of
        Inl e \<Rightarrow> Inl e
      | Inr props' \<Rightarrow>
      case getData tsModule defaultExportType checker of
        Inl e \<Rightarrow> Inl e
      | Inr data' \<Rightarrow>
      case getComputed tsModule defaultExportType checker of
        Inl e \<Rightarrow> Inl e
      | Inr computed' \<Rightarrow>
      case getMethods tsModule defaultExportType checker of
        Inl e \<Rightarrow> Inl e
      | Inr methods' \<Rightarrow> Inr (VueFileInfo props' data' computed' methods' None))"

fun mapE :: "('a \<Rightarrow> error + 'b) \<Rightarrow> 'a list \<Rightarrow> error + 'b list" where
  "mapE f [] = Inr []"
| "mapE f (x # xs) =
     (case f x of
        Inl e \<Rightarrow> Inl e
      | Inr y \<Rightarrow> (case mapE f xs of Inl e \<Rightarrow> Inl e | Inr ys \<Rightarrow> Inr (y # ys)))"

text \<open>
  \<open>getChildComponents\<close> lives in \<^verbatim>\<open>childComponents.ts\<close>; it is a parameter here.
\<close>

definition getComponentInfo ::
  "(tsModule \<Rightarrow> tsType \<Rightarrow> typeChecker \<Rightarrow> string \<Rightarrow> internalChildComponent list option) \<Rightarrow>
   tsModule \<Rightarrow> languageService \<Rightarrow> string \<Rightarrow> config \<Rightarrow> error + vueFileInfo option" where
  "getComponentInfo getChildComponents tsModule service fileFsPath config =
     (case getProgram service of
        None \<Rightarrow> Inr None
      | Some program \<Rightarrow>
          (case getSourceFile program fileFsPath of
             None \<Rightarrow> Inr None
           | Some sourceFile \<Rightarrow>
               (let checker = getTypeChecker program in
                case getDefaultExportNode sourceFile of
                  None \<Rightarrow> Inr None
                | Some defaultExportNode' \<Rightarrow>
                    (case analyzeDefaultExportExpr tsModule defaultExportNode' checker of
                       Inl e \<Rightarrow> Inl e
                     | Inr vueFileInfo \<Rightarrow>
                         (let defaultExportType = getTypeAtLocation checker defaultExportNode';
                              internalChildComponents =
                                getChildComponents tsModule defaultExportType checker
                                  (completion_tagCasing config)
                          in case internalChildComponents of
                               None \<Rightarrow> Inr (Some vueFileInfo)
                             | Some cs \<Rightarrow>
                                 (case mapE
                                    (\<lambda>c. case defaultExportNode c of
                                            None \<Rightarrow>
                                              Inr (ChildComponent (internalChildComponent.name c)
                                                     (internalChildComponent.documentation c)
                                                     (internalChildComponent.definition0 c) None)
                                          | Some n \<Rightarrow>
                                              (case analyzeDefaultExportExpr tsModule n checker of
                                                 Inl e \<Rightarrow> Inl e
                                               | Inr i \<Rightarrow>
                                                   Inr (ChildComponent (internalChildComponent.name c)
                                                          (internalChildComponent.documentation c)
                                                          (internalChildComponent.definition0 c)
                                                          (Some i))))
                                    cs of
                                    Inl e \<Rightarrow> Inl e
                                  | Inr childComponents' \<Rightarrow>
                                      Inr (Some (VueFileInfo (props vueFileInfo) (data vueFileInfo)
                                                   (computed vueFileInfo) (methods vueFileInfo)
                                                   (Some childComponents')))))))))"

section \<open>The script mode (\<^verbatim>\<open>javascript.ts\<close>)\<close>

text \<open>
  What the mode takes from its surroundings: the service host, the cache of the first
  script region, and functions of other modules (\<^verbatim>\<open>utils/paths\<close>, \<^verbatim>\<open>vscode-uri\<close>,
  the protocol library, \<^verbatim>\<open>typescriptService/util\<close>, \<^verbatim>\<open>utils/prettier\<close>,
  \<^verbatim>\<open>nullMode\<close>).  \<open>updateCurrentVueTextDocument\<close> yields the script document and the
  service for a host document; \<open>Uri_file\<close> is \<^verbatim>\<open>Uri.file(f).toString()\<close>; \<open>Number\<close> is
  the conversion of a string to a number, \<open>None\<close> standing for \<open>NaN\<close>.
\<close>

record modeEnv =
  updateCurrentVueTextDocument :: "textDocument \<Rightarrow> textDocument \<times> languageService"
  firstScriptRegion :: "textDocument \<Rightarrow> languageRange option"
  getFileFsPath :: "string \<Rightarrow> string"
  getFilePath :: "string \<Rightarrow> string"
  Uri_file :: "string \<Rightarrow> string"
  TextDocument_create :: "string \<Rightarrow> string \<Rightarrow> int \<Rightarrow> string \<Rightarrow> textDocument"
  toCompletionItemKind :: "string \<Rightarrow> completionItemKind"
  toSymbolKind :: "string \<Rightarrow> symbolKind"
  getSupportedCodeFixes :: "string list"
  Number :: "string \<Rightarrow> int option"
  prettierify :: "string \<Rightarrow> string \<Rightarrow> range \<Rightarrow> config \<Rightarrow> string \<Rightarrow> bool \<Rightarrow> textEdit list"
  prettierEslintify :: "string \<Rightarrow> string \<Rightarrow> range \<Rightarrow> config \<Rightarrow> string \<Rightarrow> bool \<Rightarrow> textEdit list"
  prettierTslintify :: "string \<Rightarrow> string \<Rightarrow> range \<Rightarrow> config \<Rightarrow> string \<Rightarrow> bool \<Rightarrow> textEdit list"
  NULL_SIGNATURE :: signatureHelp

record formattingOptions =
  tabSize :: nat
  insertSpaces :: bool

definition NON_SCRIPT_TRIGGERS :: "char list" where
  "NON_SCRIPT_TRIGGERS = [CHR ''<'', CHR ''*'', CHR '':'']"

subsection \<open>Helpers at the end of the file\<close>

definition languageServiceIncludesFile :: "modeEnv \<Rightarrow> languageService \<Rightarrow> string \<Rightarrow> error + bool" where
  "languageServiceIncludesFile env ls documentUri =
     (case getProgram ls of
        None \<Rightarrow> Inl TypeError
      | Some p \<Rightarrow>
          (let filePaths = getRootFileNames p;
               filePath = getFilePath env documentUri
           in Inr (filePath \<in> set filePaths)))"

definition convertRange :: "textDocument \<Rightarrow> textSpan \<Rightarrow> range" where
  "convertRange doc sp =
     (let startPosition = positionAt doc (textSpan.start sp);
          endPosition = positionAt doc (textSpan.start sp + length0 sp)
      in \<lparr> range.start = startPosition, range.end0 = endPosition \<rparr>)"

definition getSourceDoc :: "modeEnv \<Rightarrow> string \<Rightarrow> program option \<Rightarrow> error + textDocument" where
  "getSourceDoc env file prog =
     (case prog of
        None \<Rightarrow> Inl TypeError
      | Some p \<Rightarrow>
          (case getSourceFile p file of
             None \<Rightarrow> Inl TypeError
           | Some sf \<Rightarrow> Inr (TextDocument_create env file ''vue'' 0 (getFullText sf))))"

text \<open>
  \<^verbatim>\<open>if (result[uri]) result[uri].push(...edits) else result[uri] = edits\<close> on a record
  of arrays: an array is truthy, so the test asks whether the key is present.
\<close>

definition addEdits ::
  "string \<Rightarrow> textEdit list \<Rightarrow> (string \<times> textEdit list) list \<Rightarrow> (string \<times> textEdit list) list" where
  "addEdits u es result =
     (case map_of result u of
        Some old \<Rightarrow> map (\<lambda>(k, v). if k = u then (k, v @ es) else (k, v)) result
      | None \<Rightarrow> result @ [(u, es)])"

fun uriMappingLoop ::
  "modeEnv \<Rightarrow> program option \<Rightarrow> fileTextChanges list \<Rightarrow> (string \<times> textEdit list) list \<Rightarrow>
   error + (string \<times> textEdit list) list" where
  "uriMappingLoop env prog [] result = Inr result"
| "uriMappingLoop env prog (change # rest) result =
     (case getSourceDoc env (fileTextChanges.fileName change) prog of
        Inl e \<Rightarrow> Inl e
      | Inr targetDoc \<Rightarrow>
          (let es = map (\<lambda>tc. \<lparr> textEdit.range0 = convertRange targetDoc (span tc),
                                textEdit.newText = textChange.newText tc \<rparr>)
                      (textChanges change);
               u = Uri_file env (fileTextChanges.fileName change)
           in uriMappingLoop env prog rest (addEdits u es result)))"

definition createUriMappingForEdits ::
  "modeEnv \<Rightarrow> fileTextChanges list \<Rightarrow> languageService \<Rightarrow> error + (string \<times> textEdit list) list" where
  "createUriMappingForEdits env chs service =
     (let prog = getProgram service in uriMappingLoop env prog chs [])"

definition createRequestCodeActionCommand :: "string \<Rightarrow> codeActionReq \<Rightarrow> command" where
  "createRequestCodeActionCommand t action =
     \<lparr> command.title = t, command.command = ''vetur.chooseTypeScriptCodeAction'',
       command.arguments = [RequestArgument action] \<rparr>"

definition createApplyCodeActionCommand ::
  "string \<Rightarrow> (string \<times> textEdit list) list \<Rightarrow> command" where
  "createApplyCodeActionCommand t uriTextEditMapping =
     \<lparr> command.title = t, command.command = ''vetur.applyWorkspaceEdits'',
       command.arguments = [WorkspaceEditArgument uriTextEditMapping] \<rparr>"

definition convertOptions ::
  "formatCodeSettings \<Rightarrow> formattingOptions \<Rightarrow> nat \<Rightarrow> formatCodeSettings" where
  "convertOptions fs options initialIndentLevel =
     fs \<lparr> convertTabsToSpaces := Some (insertSpaces options),
          formatCodeSettings.tabSize := Some (formattingOptions.tabSize options),
          indentSize := Some (formattingOptions.tabSize options),
          baseIndentSize := Some (formattingOptions.tabSize options * initialIndentLevel) \<rparr>"

definition getFormatCodeSettings :: "config \<Rightarrow> formatCodeSettings" where
  "getFormatCodeSettings c =
     \<lparr> convertTabsToSpaces = Some (\<not> format_options_useTabs c),
       formatCodeSettings.tabSize = Some (format_options_tabSize c),
       indentSize = Some (format_options_tabSize c),
       baseIndentSize = None,
       insertSpaceAfterCommaDelimiter = Some True \<rparr>"

definition noPreferences :: userPreferences where
  "noPreferences =
     \<lparr> importModuleSpecifierEnding = None, importModuleSpecifierPreference = None,
       includeCompletionsWithInsertText = None, includeCompletionsForModuleExports = None \<rparr>"

fun convertTSDiagnosticCategoryToDiagnosticSeverity ::
  "diagnosticCategory \<Rightarrow> diagnosticSeverity" where
  "convertTSDiagnosticCategoryToDiagnosticSeverity CategoryError = SeverityError"
| "convertTSDiagnosticCategoryToDiagnosticSeverity CategoryWarning = SeverityWarning"
| "convertTSDiagnosticCategoryToDiagnosticSeverity CategoryMessage = SeverityInformation"
| "convertTSDiagnosticCategoryToDiagnosticSeverity CategorySuggestion = SeverityHint"

text \<open>
  \<open>convertCodeAction\<close> moves an insertion at or before the start of the script region
  to the line after the region's first line.  The region is read with a non-null
  assertion.
\<close>

definition convertCodeAction ::
  "modeEnv \<Rightarrow> textDocument \<Rightarrow> tsCodeAction list \<Rightarrow> error + textEdit list" where
  "convertCodeAction env doc acts =
     (case firstScriptRegion env doc of
        None \<Rightarrow> Inl TypeError
      | Some region \<Rightarrow>
          (let scriptStartOffset = offsetAt doc (languageRange.start region)
           in Inr (concat (map (\<lambda>action.
                concat (map (\<lambda>change.
                  map (\<lambda>tc.
                    if textSpan.start (span tc) \<le> scriptStartOffset \<and> length0 (span tc) = 0
                    then (let l = line (languageRange.start region)
                          in \<lparr> textEdit.range0 =
                                 \<lparr> range.start = \<lparr> line = l + 1, character = 0 \<rparr>,
                                   range.end0 = \<lparr> line = l + 1, character = 0 \<rparr> \<rparr>,
                               textEdit.newText = textChange.newText tc \<rparr>)
                    else \<lparr> textEdit.range0 = convertRange doc (span tc),
                           textEdit.newText = textChange.newText tc \<rparr>)
                    (textChanges change))
                  (tsCodeAction.changes action)))
                acts))))"

text \<open>Truthiness of an optional string: defined and not empty.\<close>

definition truthy :: "string option \<Rightarrow> bool" where
  "truthy s = (case s of None \<Rightarrow> False | Some t \<Rightarrow> t \<noteq> [])"

definition endsWith :: "string \<Rightarrow> string \<Rightarrow> bool" where
  "endsWith s suffix =
     (length suffix \<le> length s \<and> drop (length s - length suffix) s = suffix)"

text \<open>\<^verbatim>\<open>s[i]\<close>: undefined outside the string.\<close>

definition charAt :: "string \<Rightarrow> int \<Rightarrow> char option" where
  "charAt s i = (if 0 \<le> i \<and> i < int (length s) then Some (s ! nat i) else None)"

subsection \<open>Diagnostics\<close>

definition doValidation :: "modeEnv \<Rightarrow> tsModule \<Rightarrow> textDocument \<Rightarrow> error + diagnostic list" where
  "doValidation env tsModule doc =
     (case updateCurrentVueTextDocument env doc of (scriptDoc, service) \<Rightarrow>
      case languageServiceIncludesFile env service (textDocument.uri doc) of
        Inl e \<Rightarrow> Inl e
      | Inr False \<Rightarrow> Inr []
      | Inr True \<Rightarrow>
          (let fileFsPath = getFileFsPath env (textDocument.uri doc);
               rawScriptDiagnostics =
                 getSyntacticDiagnostics service fileFsPath
                 @ getSemanticDiagnostics service fileFsPath
                 @ getSuggestionDiagnostics service fileFsPath
           in Inr (map (\<lambda>diag.
                 \<lparr> diagnostic.range0 = convertRange scriptDoc (textSpan.truncate diag),
                   severity = convertTSDiagnosticCategoryToDiagnosticSeverity (category diag),
                   message = flattenDiagnosticMessageText tsModule (messageText diag) [newline],
                   tags = (if reportsUnnecessary diag then [Unnecessary] else []),
                   diagnostic.code = NumberCode (tsDiagnostic.code diag),
                   diagnostic.source = ''Vetur'' \<rparr>)
                 rawScriptDiagnostics)))"

subsection \<open>Completion\<close>

definition calculateLabelAndDetailTextForPathImport ::
  "completionEntry \<Rightarrow> string \<times> string option" where
  "calculateLabelAndDetailTextForPathImport entry =
     (if completionEntry.kind entry = ''script'' \<and> truthy (kindModifiers entry) then
        (completionEntry.name entry,
         Some (completionEntry.name entry @ (case kindModifiers entry of Some m \<Rightarrow> m | None \<Rightarrow> [])))
      else if completionEntry.kind entry = ''script''
              \<and> endsWith (completionEntry.name entry) ''.vue'' then
        (take (length (completionEntry.name entry) - length ''.vue'') (completionEntry.name entry),
         Some (completionEntry.name entry))
      else (completionEntry.name entry, None))"

definition completionItemOf ::
  "modeEnv \<Rightarrow> textDocument \<Rightarrow> textDocument \<Rightarrow> position \<Rightarrow> int \<Rightarrow> completionEntry \<Rightarrow>
   completionItem" where
  "completionItemOf env doc scriptDoc position' offset' entry =
     (let range' = map_option (convertRange scriptDoc) (replacementSpan entry);
          filterText' =
            (if truthy (completionEntry.insertText entry) \<and> range' \<noteq> None
                \<and> map_option hd (completionEntry.insertText entry) = Some (CHR ''['')
             then Some (''.'' @ completionEntry.name entry) else None);
          kind' = toCompletionItemKind env (completionEntry.kind entry);
          insertTextFormat' =
            (if kind' = CompletionItemKind_Function \<or> kind' = CompletionItemKind_Method
             then Some Snippet else None);
          insertText' =
            (if truthy (completionEntry.insertText entry)
             then (case completionEntry.insertText entry of Some t \<Rightarrow> t | None \<Rightarrow> [])
             else completionEntry.name entry)
      in case calculateLabelAndDetailTextForPathImport entry of (label', detail') \<Rightarrow>
         \<lparr> completionItem.uri = textDocument.uri doc,
           completionItem.position = position',
           preselect = (if isRecommended entry = Some True then Some True else None),
           completionItem.label = label',
           detail = detail',
           filterText = filterText',
           insertTextFormat = insertTextFormat',
           completionItem.sortText = completionEntry.sortText entry,
           completionItem.kind = toCompletionItemKind env (completionEntry.kind entry),
           textEdit =
             map_option (\<lambda>r. \<lparr> textEdit.range0 = r, textEdit.newText = insertText' \<rparr>) range',
           completionItem.insertText = (if range' \<noteq> None then None else Some insertText'),
           completionItem.data =
             Some \<lparr> completionItemData.languageId = textDocument.languageId scriptDoc,
                    completionItemData.uri = textDocument.uri doc,
                    offset = offset',
                    completionItemData.source = completionEntry.source entry \<rparr>,
           completionItem.documentation = None,
           additionalTextEdits = None \<rparr>)"

definition emptyCompletionList :: completionList where
  "emptyCompletionList = \<lparr> isIncomplete = False, completionList.items = [] \<rparr>"

definition doComplete ::
  "modeEnv \<Rightarrow> config \<Rightarrow> textDocument \<Rightarrow> position \<Rightarrow> error + completionList" where
  "doComplete env c doc position' =
     (case updateCurrentVueTextDocument env doc of (scriptDoc, service) \<Rightarrow>
      case languageServiceIncludesFile env service (textDocument.uri doc) of
        Inl e \<Rightarrow> Inl e
      | Inr False \<Rightarrow> Inr emptyCompletionList
      | Inr True \<Rightarrow>
          (let fileFsPath = getFileFsPath env (textDocument.uri doc);
               offset' = offsetAt scriptDoc position';
               triggerChar = charAt (textDocument.getText doc) (offset' - 1)
           in if (case triggerChar of Some ch \<Rightarrow> ch \<in> set NON_SCRIPT_TRIGGERS | None \<Rightarrow> False)
              then Inr emptyCompletionList
              else
                (case getCompletionsAtPosition service fileFsPath offset'
                        (noPreferences
                           \<lparr> includeCompletionsWithInsertText := Some True,
                             includeCompletionsForModuleExports := Some (completion_autoImport c) \<rparr>) of
                   None \<Rightarrow> Inr emptyCompletionList
                 | Some completions \<Rightarrow>
                     (let entries' = filter (\<lambda>entry. completionEntry.name entry \<noteq> ''__vueEditorBridge'')
                                       (entries completions)
                      in Inr \<lparr> isIncomplete = False,
                               completionList.items =
                                 map (completionItemOf env doc scriptDoc position' offset') entries' \<rparr>))))"

definition doResolve ::
  "modeEnv \<Rightarrow> tsModule \<Rightarrow> config \<Rightarrow> textDocument \<Rightarrow> completionItem \<Rightarrow> error + completionItem" where
  "doResolve env tsModule c doc item =
     (case updateCurrentVueTextDocument env doc of (scriptDoc, service) \<Rightarrow>
      case languageServiceIncludesFile env service (textDocument.uri doc) of
        Inl e \<Rightarrow> Inl e
      | Inr False \<Rightarrow> Inr item
      | Inr True \<Rightarrow>
          (let fileFsPath = getFileFsPath env (textDocument.uri doc) in
           case completionItem.data item of
             None \<Rightarrow> Inl TypeError
           | Some d \<Rightarrow>
               (case getCompletionEntryDetails service fileFsPath (offset d)
                       (completionItem.label item) (getFormatCodeSettings c)
                       (completionItemData.source d)
                       (noPreferences
                          \<lparr> importModuleSpecifierEnding := Some ''minimal'',
                            importModuleSpecifierPreference := Some ''relative'',
                            includeCompletionsWithInsertText := Some True \<rparr>) of
                  None \<Rightarrow> Inr item
                | Some details \<Rightarrow>
                    if completionItem.kind item \<noteq> CompletionItemKind_File
                       \<and> completionItem.kind item \<noteq> CompletionItemKind_Folder then
                      (let item1 = item \<lparr> detail :=
                             Some (displayPartsToString tsModule
                                     (completionEntryDetails.displayParts details)) \<rparr>;
                           documentation0 =
                             displayPartsToString tsModule
                               (completionEntryDetails.documentation details)
                       in case codeActions details of
                            Some acts \<Rightarrow>
                              if completion_autoImport c then
                                (case convertCodeAction env doc acts of
                                   Inl e \<Rightarrow> Inl e
                                 | Inr textEdits \<Rightarrow>
                                     Inr (item1
                                       \<lparr> additionalTextEdits := Some textEdits,
                                         completionItem.documentation :=
                                           Some \<lparr> markupContent.kind = ''markdown'',
                                                  value = documentation0 @
                                                    concat (map (\<lambda>action.
                                                      if tsCodeAction.description action \<noteq> []
                                                      then [newline] @ tsCodeAction.description action
                                                      else []) acts) \<rparr>,
                                         completionItem.data := None \<rparr>))
                              else
                                Inr (item1
                                  \<lparr> completionItem.documentation :=
                                      Some \<lparr> markupContent.kind = ''markdown'',
                                             value = documentation0 \<rparr>,
                                    completionItem.data := None \<rparr>)
                          | None \<Rightarrow>
                              Inr (item1
                                \<lparr> completionItem.documentation :=
                                    Some \<lparr> markupContent.kind = ''markdown'',
                                           value = documentation0 \<rparr>,
                                  completionItem.data := None \<rparr>))
                    else Inr item)))"

subsection \<open>Hover, signature help, highlights\<close>

definition doHover ::
  "modeEnv \<Rightarrow> tsModule \<Rightarrow> textDocument \<Rightarrow> position \<Rightarrow> error + hover" where
  "doHover env tsModule doc position' =
     (case updateCurrentVueTextDocument env doc of (scriptDoc, service) \<Rightarrow>
      case languageServiceIncludesFile env service (textDocument.uri doc) of
        Inl e \<Rightarrow> Inl e
      | Inr False \<Rightarrow> Inr \<lparr> contents = [], hover.range0 = None \<rparr>
      | Inr True \<Rightarrow>
          (let fileFsPath = getFileFsPath env (textDocument.uri doc) in
           case getQuickInfoAtPosition service fileFsPath (offsetAt scriptDoc position') of
             Some info' \<Rightarrow>
               (let display = displayPartsToString tsModule (quickInfo.displayParts info');
                    docText = displayPartsToString tsModule (quickInfo.documentation info');
                    markedContents =
                      (if docText \<noteq> [] then [MarkedText docText, MarkedText [newline]] else [])
                      @ [MarkedCode ''ts'' display]
                in Inr \<lparr> contents = markedContents,
                         hover.range0 = Some (convertRange scriptDoc (quickInfo.textSpan info')) \<rparr>)
           | None \<Rightarrow> Inr \<lparr> contents = [], hover.range0 = None \<rparr>))"

text \<open>
  The label of a signature: prefix, the parameter labels with the separator between
  consecutive ones, suffix.
\<close>

definition signatureOf :: "tsModule \<Rightarrow> signatureHelpItem \<Rightarrow> signatureInformation" where
  "signatureOf tsModule item =
     \<lparr> signatureInformation.label =
         displayPartsToString tsModule (prefixDisplayParts item)
         @ join (displayPartsToString tsModule (separatorDisplayParts item))
             (map (\<lambda>p. displayPartsToString tsModule (signatureHelpParameter.displayParts p))
                (signatureHelpItem.parameters item))
         @ displayPartsToString tsModule (suffixDisplayParts item),
       signatureInformation.documentation = None,
       signatureInformation.parameters =
         map (\<lambda>p. \<lparr> parameterInformation.label =
                       displayPartsToString tsModule (signatureHelpParameter.displayParts p),
                     parameterInformation.documentation =
                       displayPartsToString tsModule (signatureHelpParameter.documentation p) \<rparr>)
           (signatureHelpItem.parameters item) \<rparr>"

definition doSignatureHelp ::
  "modeEnv \<Rightarrow> tsModule \<Rightarrow> textDocument \<Rightarrow> position \<Rightarrow> error + signatureHelp" where
  "doSignatureHelp env tsModule doc position' =
     (case updateCurrentVueTextDocument env doc of (scriptDoc, service) \<Rightarrow>
      case languageServiceIncludesFile env service (textDocument.uri doc) of
        Inl e \<Rightarrow> Inl e
      | Inr False \<Rightarrow> Inr (NULL_SIGNATURE env)
      | Inr True \<Rightarrow>
          (let fileFsPath = getFileFsPath env (textDocument.uri doc) in
           case getSignatureHelpItems service fileFsPath (offsetAt scriptDoc position') of
             None \<Rightarrow> Inr (NULL_SIGNATURE env)
           | Some signHelp \<Rightarrow>
               Inr \<lparr> signatures = map (signatureOf tsModule) (signatureHelpItems.items signHelp),
                     activeSignature = selectedItemIndex signHelp,
                     activeParameter = argumentIndex signHelp \<rparr>))"

definition findDocumentHighlight ::
  "modeEnv \<Rightarrow> textDocument \<Rightarrow> position \<Rightarrow> error + documentHighlight list" where
  "findDocumentHighlight env doc position' =
     (case updateCurrentVueTextDocument env doc of (scriptDoc, service) \<Rightarrow>
      case languageServiceIncludesFile env service (textDocument.uri doc) of
        Inl e \<Rightarrow> Inl e
      | Inr False \<Rightarrow> Inr []
      | Inr True \<Rightarrow>
          (let fileFsPath = getFileFsPath env (textDocument.uri doc) in
           case getOccurrencesAtPosition service fileFsPath (offsetAt scriptDoc position') of
             Some occurrences \<Rightarrow>
               Inr (map (\<lambda>entry.
                     \<lparr> documentHighlight.range0 = convertRange scriptDoc (referenceEntry.textSpan entry),
                       documentHighlight.kind =
                         (if isWriteAccess entry then HighlightWrite else HighlightText) \<rparr>)
                     occurrences)
           | None \<Rightarrow> Inr []))"

subsection \<open>Document symbols\<close>

text \<open>The decimal text of an integer, as string concatenation with a number produces it.\<close>

fun showNat :: "nat \<Rightarrow> string" where
  "showNat n =
     (if n < 10 then [char_of (48 + n)]
      else showNat (n div 10) @ [char_of (48 + n mod 10)])"

declare showNat.simps [simp del]

definition showInt :: "int \<Rightarrow> string" where
  "showInt i = (if i < 0 then ''-'' @ showNat (nat (- i)) else showNat (nat i))"

text \<open>
  The walk over the navigation bar threads the result list and the dictionary
  \<open>existing\<close>, kept as the list of the keys set so far.  (A key ends with a digit, so it
  never meets a property that an empty object inherits.)  Reading \<^verbatim>\<open>item.spans[0].start\<close>
  throws when the item has no span.
\<close>

function (sequential) collectSymbols ::
  "modeEnv \<Rightarrow> textDocument \<Rightarrow> textDocument \<Rightarrow> navigationBarItem \<Rightarrow> string option \<Rightarrow>
   symbolInformation list \<times> string list \<Rightarrow> error + symbolInformation list \<times> string list"
and collectChildren ::
  "modeEnv \<Rightarrow> textDocument \<Rightarrow> textDocument \<Rightarrow> navigationBarItem list \<Rightarrow> string option \<Rightarrow>
   symbolInformation list \<times> string list \<Rightarrow> error + symbolInformation list \<times> string list"
where
  "collectSymbols env doc scriptDoc item containerLabel (result, existing) =
     (case spans item of
        [] \<Rightarrow> Inl TypeError
      | sp # _ \<Rightarrow>
          (let sig = text0 item @ navigationBarItem.kind item @ showInt (textSpan.start sp) in
           if navigationBarItem.kind item \<noteq> ''script'' \<and> sig \<notin> set existing then
             (let symbol' =
                    \<lparr> symbolInformation.name = text0 item,
                      symbolInformation.kind = toSymbolKind env (navigationBarItem.kind item),
                      location = \<lparr> location.uri = textDocument.uri doc,
                                   location.range0 = convertRange scriptDoc sp \<rparr>,
                      containerName = containerLabel \<rparr>
              in collectChildren env doc scriptDoc (childItems item) (Some (text0 item))
                   (result @ [symbol'], sig # existing))
           else collectChildren env doc scriptDoc (childItems item) containerLabel
                  (result, existing)))"
| "collectChildren env doc scriptDoc [] containerLabel st = Inr st"
| "collectChildren env doc scriptDoc (child # rest) containerLabel st =
     (case collectSymbols env doc scriptDoc child containerLabel st of
        Inl e \<Rightarrow> Inl e
      | Inr st' \<Rightarrow> collectChildren env doc scriptDoc rest containerLabel st')"
  by pat_completeness auto
termination
proof (relation "measure (\<lambda>x. case x of
          Inl (env, doc, scriptDoc, item, containerLabel, st) \<Rightarrow> size item
        | Inr (env, doc, scriptDoc, navItems, containerLabel, st) \<Rightarrow> size_list size navItems)",
       goal_cases)
  case 1
  show ?case by simp
next
  case (2 env doc scriptDoc item)
  show ?case by (cases item) simp
next
  case (3 env doc scriptDoc item)
  show ?case by (cases item) simp
next
  case 4
  show ?case by simp
next
  case 5
  show ?case by simp
qed

definition findDocumentSymbols :: "modeEnv \<Rightarrow> textDocument \<Rightarrow> error + symbolInformation list" where
  "findDocumentSymbols env doc =
     (case updateCurrentVueTextDocument env doc of (scriptDoc, service) \<Rightarrow>
      case languageServiceIncludesFile env service (textDocument.uri doc) of
        Inl e \<Rightarrow> Inl e
      | Inr False \<Rightarrow> Inr []
      | Inr True \<Rightarrow>
          (let fileFsPath = getFileFsPath env (textDocument.uri doc) in
           case getNavigationBarItems service fileFsPath of
             None \<Rightarrow> Inr []
           | Some navItems \<Rightarrow>
               (case collectChildren env doc scriptDoc navItems None ([], []) of
                  Inl e \<Rightarrow> Inl e
                | Inr (result, existing) \<Rightarrow> Inr result)))"

subsection \<open>Definitions and references\<close>

definition findDefinition ::
  "modeEnv \<Rightarrow> textDocument \<Rightarrow> position \<Rightarrow> error + location list" where
  "findDefinition env doc position' =
     (case updateCurrentVueTextDocument env doc of (scriptDoc, service) \<Rightarrow>
      case languageServiceIncludesFile env service (textDocument.uri doc) of
        Inl e \<Rightarrow> Inl e
      | Inr False \<Rightarrow> Inr []
      | Inr True \<Rightarrow>
          (let fileFsPath = getFileFsPath env (textDocument.uri doc) in
           case getDefinitionAtPosition service fileFsPath (offsetAt scriptDoc position') of
             None \<Rightarrow> Inr []
           | Some definitions \<Rightarrow>
               (case getProgram service of
                  None \<Rightarrow> Inr []
                | Some prog \<Rightarrow>
                    mapE (\<lambda>d.
                      case getSourceDoc env (definitionInfo.fileName d) (Some prog) of
                        Inl e \<Rightarrow> Inl e
                      | Inr definitionTargetDoc \<Rightarrow>
                          Inr \<lparr> location.uri = Uri_file env (definitionInfo.fileName d),
                                location.range0 =
                                  convertRange definitionTargetDoc (definitionInfo.textSpan d) \<rparr>)
                      definitions)))"

definition findReferences ::
  "modeEnv \<Rightarrow> textDocument \<Rightarrow> position \<Rightarrow> error + location list" where
  "findReferences env doc position' =
     (case updateCurrentVueTextDocument env doc of (scriptDoc, service) \<Rightarrow>
      case languageServiceIncludesFile env service (textDocument.uri doc) of
        Inl e \<Rightarrow> Inl e
      | Inr False \<Rightarrow> Inr []
      | Inr True \<Rightarrow>
          (let fileFsPath = getFileFsPath env (textDocument.uri doc) in
           case getReferencesAtPosition service fileFsPath (offsetAt scriptDoc position') of
             None \<Rightarrow> Inr []
           | Some references \<Rightarrow>
               (case getProgram service of
                  None \<Rightarrow> Inr []
                | Some prog \<Rightarrow>
                    mapE (\<lambda>r.
                      case getSourceDoc env (referenceEntry.fileName r) (Some prog) of
                        Inl e \<Rightarrow> Inl e
                      | Inr referenceTargetDoc \<Rightarrow>
                          Inr \<lparr> location.uri = Uri_file env (referenceEntry.fileName r),
                                location.range0 =
                                  convertRange referenceTargetDoc (referenceEntry.textSpan r) \<rparr>)
                      references)))"

subsection \<open>Code actions\<close>

text \<open>\<^verbatim>\<open>+d.code!\<close>: the numeric value of a diagnostic's code, \<open>None\<close> for \<open>NaN\<close>.\<close>

definition toNumber :: "modeEnv \<Rightarrow> diagnosticCode \<Rightarrow> int option" where
  "toNumber env dc =
     (case dc of NumberCode n \<Rightarrow> Some n | StringCode s \<Rightarrow> Number env s | NoCode \<Rightarrow> None)"

text \<open>The actions one code fix contributes; building the edit mapping can throw.\<close>

definition quickFixActions ::
  "modeEnv \<Rightarrow> string \<Rightarrow> textRange \<Rightarrow> codeActionContext \<Rightarrow> formatCodeSettings \<Rightarrow>
   userPreferences \<Rightarrow> languageService \<Rightarrow> codeFixAction \<Rightarrow> error + codeAction list" where
  "quickFixActions env file textRange' context formatSettings' preferences' service fix =
     (case createUriMappingForEdits env (codeFixAction.changes fix) service of
        Inl e \<Rightarrow> Inl e
      | Inr mapping \<Rightarrow>
          Inr ([\<lparr> codeAction.title = codeFixAction.description fix,
                  codeAction.kind = CodeActionKind_QuickFix,
                  codeAction.diagnostics = Some (codeActionContext.diagnostics context),
                  codeAction.command =
                    createApplyCodeActionCommand (codeFixAction.description fix) mapping \<rparr>]
               @ (if truthy (fixAllDescription fix) \<and> truthy (fixId fix) then
                    [\<lparr> codeAction.title = (case fixAllDescription fix of Some t \<Rightarrow> t | None \<Rightarrow> []),
                       codeAction.kind = CodeActionKind_QuickFix,
                       codeAction.diagnostics = Some (codeActionContext.diagnostics context),
                       codeAction.command =
                         createRequestCodeActionCommand
                           (case fixAllDescription fix of Some t \<Rightarrow> t | None \<Rightarrow> [])
                           \<lparr> codeActionReq.kind =
                               CombinedCodeFix (case fixId fix of Some i \<Rightarrow> i | None \<Rightarrow> []),
                             codeActionReq.fileName = file,
                             textRange = textRange',
                             formatSettings = formatSettings',
                             preferences = preferences' \<rparr> \<rparr>]
                  else [])))"

fun quickFixLoop ::
  "(codeFixAction \<Rightarrow> error + codeAction list) \<Rightarrow> codeFixAction list \<Rightarrow> codeAction list \<Rightarrow>
   error + codeAction list" where
  "quickFixLoop f [] result = Inr result"
| "quickFixLoop f (fix # fixes) result =
     (case f fix of
        Inl e \<Rightarrow> Inl e
      | Inr acts \<Rightarrow> quickFixLoop f fixes (result @ acts))"

text \<open>
  The test \<^verbatim>\<open>if (!fixableDiagnosticCodes) return\<close> of the source never fires, an array
  being truthy; the service is asked even for an empty list of codes.
\<close>

definition provideQuickFixCodeActions ::
  "modeEnv \<Rightarrow> string \<Rightarrow> textRange \<Rightarrow> codeActionContext \<Rightarrow> int set \<Rightarrow> formatCodeSettings \<Rightarrow>
   userPreferences \<Rightarrow> languageService \<Rightarrow> codeAction list \<Rightarrow> error + codeAction list" where
  "provideQuickFixCodeActions env file textRange' context supportedCodeFixCodes formatSettings'
     preferences' service result =
     (if (case only context of Some ks \<Rightarrow> CodeActionKind_QuickFix \<notin> set ks | None \<Rightarrow> False)
      then Inr result
      else
        (let fixableDiagnosticCodes =
               filter (\<lambda>n. case n of Some k \<Rightarrow> k \<in> supportedCodeFixCodes | None \<Rightarrow> False)
                 (map (\<lambda>d. toNumber env (diagnostic.code d))
                    (codeActionContext.diagnostics context));
             fixes = getCodeFixesAtPosition service file (pos textRange') (textRange.end0 textRange')
                       (map the fixableDiagnosticCodes) formatSettings' preferences'
         in quickFixLoop
              (quickFixActions env file textRange' context formatSettings' preferences' service)
              fixes result))"

definition provideOrganizeImports ::
  "string \<Rightarrow> textRange \<Rightarrow> codeActionContext \<Rightarrow> formatCodeSettings \<Rightarrow> userPreferences \<Rightarrow>
   codeAction list \<Rightarrow> codeAction list" where
  "provideOrganizeImports file textRange' context formatSettings' preferences' result =
     (if (case only context of
            None \<Rightarrow> True
          | Some ks \<Rightarrow> CodeActionKind_SourceOrganizeImports \<notin> set ks
                       \<and> CodeActionKind_Source \<notin> set ks)
      then result
      else result @
        [\<lparr> codeAction.title = ''Organize Imports'',
           codeAction.kind = CodeActionKind_SourceOrganizeImports,
           codeAction.diagnostics = None,
           codeAction.command =
             createRequestCodeActionCommand ''Organize Imports''
               \<lparr> codeActionReq.kind = OrganizeImports,
                 codeActionReq.fileName = file,
                 textRange = textRange',
                 formatSettings = formatSettings',
                 preferences = preferences' \<rparr> \<rparr>])"

definition provideRefactoringCommands ::
  "string \<Rightarrow> textRange \<Rightarrow> codeActionContext \<Rightarrow> formatCodeSettings \<Rightarrow> userPreferences \<Rightarrow>
   languageService \<Rightarrow> codeAction list \<Rightarrow> codeAction list" where
  "provideRefactoringCommands file textRange' context formatSettings' preferences' service result =
     (if (case only context of
            Some ks \<Rightarrow>
              \<not> list_ex (\<lambda>el. el \<in> set [CodeActionKind_Refactor, CodeActionKind_RefactorExtract,
                                        CodeActionKind_RefactorInline, CodeActionKind_RefactorRewrite,
                                        CodeActionKind_Source]) ks
          | None \<Rightarrow> False)
      then result
      else
        (let refactorings = getApplicableRefactors service file textRange' noPreferences;
             mk = (\<lambda>refactorName actionName' description'.
                     (description',
                      \<lparr> codeActionReq.kind = RefactorAction refactorName actionName' description',
                        codeActionReq.fileName = file,
                        textRange = textRange',
                        formatSettings = formatSettings',
                        preferences = preferences' \<rparr>));
             acts = concat (map (\<lambda>refactoring.
                      if inlineable refactoring then
                        [mk (applicableRefactorInfo.name refactoring)
                            (applicableRefactorInfo.name refactoring)
                            (applicableRefactorInfo.description refactoring)]
                      else
                        map (\<lambda>action. mk (applicableRefactorInfo.name refactoring)
                                         (refactorActionInfo.name action)
                                         (refactorActionInfo.description action))
                          (actions refactoring))
                      refactorings)
         in result @
              map (\<lambda>(description', action).
                     \<lparr> codeAction.title = description',
                       codeAction.kind = CodeActionKind_Refactor,
                       codeAction.diagnostics = None,
                       codeAction.command = createRequestCodeActionCommand description' action \<rparr>)
                acts))"

text \<open>
  \<open>getCodeActions\<close> reads and, on first use, fills the variable
  \<open>supportedCodeFixCodes\<close> of the mode; it returns the variable's new value with its
  result.  A set is truthy, so a filled variable is never filled again.
\<close>

definition getCodeActions ::
  "modeEnv \<Rightarrow> config \<Rightarrow> int set option \<Rightarrow> textDocument \<Rightarrow> range \<Rightarrow> codeActionContext \<Rightarrow>
   int set option \<times> (error + codeAction list)" where
  "getCodeActions env c supportedCodeFixCodes doc range' context =
     (case updateCurrentVueTextDocument env doc of (scriptDoc, service) \<Rightarrow>
      let file = getFileFsPath env (textDocument.uri scriptDoc);
          start' = offsetAt scriptDoc (range.start range');
          end' = offsetAt scriptDoc (range.end0 range');
          textRange' = \<lparr> pos = start', textRange.end0 = end' \<rparr>;
          supported =
            (case supportedCodeFixCodes of
               None \<Rightarrow>
                 set (map the (filter (\<lambda>x. x \<noteq> None)
                                 (map (Number env) (getSupportedCodeFixes env))))
             | Some codes \<Rightarrow> codes);
          formatSettings' = getFormatCodeSettings c
      in (Some supported,
          case provideQuickFixCodeActions env file textRange' context supported formatSettings'
                 noPreferences service [] of
            Inl e \<Rightarrow> Inl e
          | Inr result1 \<Rightarrow>
              Inr (provideRefactoringCommands file textRange' context formatSettings'
                     noPreferences service
                     (provideOrganizeImports file textRange' context formatSettings'
                        noPreferences result1))))"

definition getCodeActionEdits ::
  "modeEnv \<Rightarrow> textDocument \<Rightarrow> codeActionReq \<Rightarrow> error + command" where
  "getCodeActionEdits env doc req =
     (case updateCurrentVueTextDocument env doc of (scriptDoc, service) \<Rightarrow>
      case codeActionReq.kind req of
        RefactorAction refactorName actionName' description' \<Rightarrow>
          (case getEditsForRefactor service (codeActionReq.fileName req) (formatSettings req)
                  (textRange req) refactorName actionName' (preferences req) of
             None \<Rightarrow> Inr (createApplyCodeActionCommand [] [])
           | Some response \<Rightarrow>
               (case createUriMappingForEdits env (edits response) service of
                  Inl e \<Rightarrow> Inl e
                | Inr uriMapping \<Rightarrow> Inr (createApplyCodeActionCommand [] uriMapping)))
      | CombinedCodeFix fixId' \<Rightarrow>
          (case getCombinedCodeFix service (codeActionReq.fileName req) fixId'
                  (formatSettings req) (preferences req) of
             None \<Rightarrow> Inl TypeError
           | Some fix \<Rightarrow>
               (case createUriMappingForEdits env (combinedCodeActions.changes fix) service of
                  Inl e \<Rightarrow> Inl e
                | Inr uriMapping \<Rightarrow> Inr (createApplyCodeActionCommand [] uriMapping)))
      | OrganizeImports \<Rightarrow>
          (case organizeImports service (codeActionReq.fileName req) (formatSettings req)
                  (preferences req) of
             None \<Rightarrow> Inl TypeError
           | Some response \<Rightarrow>
               (case createUriMappingForEdits env response service of
                  Inl e \<Rightarrow> Inl e
                | Inr uriMapping \<Rightarrow> Inr (createApplyCodeActionCommand [] uriMapping))))"

subsection \<open>Formatting\<close>

text \<open>
  \<open>format\<close> returns the settings object with its result: \<open>convertOptions\<close> assigns into
  the format settings stored in it.
\<close>

definition format ::
  "modeEnv \<Rightarrow> config \<Rightarrow> textDocument \<Rightarrow> range \<Rightarrow> formattingOptions \<Rightarrow> config \<times> textEdit list" where
  "format env c doc range' formatParams =
     (case updateCurrentVueTextDocument env doc of (scriptDoc, service) \<Rightarrow>
      let defaultFormatter =
            (if textDocument.languageId scriptDoc = ''javascript''
             then format_defaultFormatter_js c else format_defaultFormatter_ts c)
      in if defaultFormatter = ''none'' then (c, [])
         else
           (let parser = (if textDocument.languageId scriptDoc = ''javascript''
                          then ''babylon'' else ''typescript'');
                needInitialIndent = format_scriptInitialIndent c
            in if defaultFormatter = ''prettier'' \<or> defaultFormatter = ''prettier-eslint''
                  \<or> defaultFormatter = ''prettier-tslint'' then
                 (let code' = getTextIn doc range';
                      filePath = getFileFsPath env (textDocument.uri scriptDoc);
                      doFormat =
                        (if defaultFormatter = ''prettier-eslint'' then prettierEslintify env
                         else if defaultFormatter = ''prettier-tslint'' then prettierTslintify env
                         else prettierify env)
                  in (c, doFormat code' filePath range' c parser needInitialIndent))
               else
                 (let initialIndentLevel = (if needInitialIndent then 1 else 0);
                      convertedFormatSettings =
                        convertOptions
                          (if textDocument.languageId scriptDoc = ''javascript''
                           then javascript_format c else typescript_format c)
                          \<lparr> formattingOptions.tabSize = format_options_tabSize c,
                            insertSpaces = \<not> format_options_useTabs c \<rparr>
                          initialIndentLevel;
                      c' = (if textDocument.languageId scriptDoc = ''javascript''
                            then c \<lparr> javascript_format := convertedFormatSettings \<rparr>
                            else c \<lparr> typescript_format := convertedFormatSettings \<rparr>);
                      fileFsPath = getFileFsPath env (textDocument.uri doc);
                      start' = offsetAt scriptDoc (range.start range');
                      end' = offsetAt scriptDoc (range.end0 range')
                  in case getFormattingEditsForRange service fileFsPath start' end'
                            convertedFormatSettings of
                       None \<Rightarrow> (c', [])
                     | Some es \<Rightarrow>
                         (c', map (\<lambda>edit. \<lparr> textEdit.range0 = convertRange scriptDoc (span edit),
                                             textEdit.newText = textChange.newText edit \<rparr>)
                                (filter (\<lambda>edit. textSpan.start (span edit) \<ge> start'
                                                \<and> textSpan.start (span edit) + length0 (span edit) \<le> end')
                                   es)))))"

section \<open>The outline walk of the specification\<close>

text \<open>
  The specification describes \<open>findDocumentSymbols\<close> as a recursive walk of the outline
  that skips whole-file grouping entries, drops an entry whose composite key was met
  before, and labels a symbol with the name of its nearest ancestor that was not
  skipped.  The walk below follows these words rather than the code: it lists every
  item with its chain of ancestors (nearest first, each with the mark whether it was
  emitted) and with its own mark; the keys met before an item are those of the earlier
  items that are not grouping entries.  The container label is read off the chain, in
  two ways: as the specification words it, from the nearest ancestor that is not a
  grouping entry, and as the code turns out to do it, from the nearest ancestor that was
  emitted.  The walk is compared with \<open>collectSymbols\<close> in the last section.
\<close>



fun allSpans :: "navigationBarItem \<Rightarrow> bool" where
  "allSpans (NavigationBarItem t k sps children) = (sps \<noteq> [] \<and> list_all allSpans children)"











section \<open>Example inputs\<close>

text \<open>
  Small syntax trees and compiler objects on which the theorems below are instantiated:
  the object \<^verbatim>\<open>{ props: ['a', x, 'b'] }\<close>, exported directly or through
  \<^verbatim>\<open>Vue.extend\<close>, and a helper class.
\<close>

definition exModule :: tsModule where
  "exModule =
     \<lparr> TypeFlags_Object = 524288, ObjectFlags_Class = 1,
       flattenDiagnosticMessageText = (\<lambda>messageText nl. messageText),
       displayPartsToString = (\<lambda>parts. case parts of None \<Rightarrow> [] | Some ps \<Rightarrow> concat ps) \<rparr>"

definition exPropsArray :: node where
  "exPropsArray =
     Node (ArrayLiteralExpression
             [Node (StringLiteral ''a'') ''(a)'' [] None,
              Node Identifier ''x'' [] None,
              Node (StringLiteral ''b'') ''(b)'' [] None])
          ''[(a), x, (b)]'' [] None"

definition exPropsDecl :: node where
  "exPropsDecl =
     Node PropertyAssignment ''props: [(a), x, (b)]''
       [Node Identifier ''props'' [] None, Node (OtherKind 0) '':'' [] None, exPropsArray] None"

definition exPropsSymbol :: tsSymbol where
  "exPropsSymbol =
     \<lparr> tsSymbol.name = ''props'', valueDeclaration = Some exPropsDecl,
       declarations = [exPropsDecl], getDocumentationComment = [] \<rparr>"

definition exObject :: node where
  "exObject = Node ObjectLiteralExpression ''{ props: [(a), x, (b)] }'' [] None"

definition exObjectSymbol :: tsSymbol where
  "exObjectSymbol =
     \<lparr> tsSymbol.name = ''__object'', valueDeclaration = Some exObject,
       declarations = [exObject], getDocumentationComment = [] \<rparr>"

definition exObjectType :: tsType where
  "exObjectType =
     \<lparr> isClass = Some False, flags = 524288, objectFlags = 128,
       getProperties = [exPropsSymbol], symbol = exObjectSymbol, getCallSignatures = [] \<rparr>"

definition exEmptyType :: tsType where
  "exEmptyType =
     \<lparr> isClass = Some False, flags = 524288, objectFlags = 0, getProperties = [],
       symbol = exObjectSymbol, getCallSignatures = [] \<rparr>"

definition exCallee :: node where
  "exCallee = Node Identifier ''Vue.extend'' [] None"

definition exCall :: node where
  "exCall =
     Node (CallExpression exCallee [exObject]) ''Vue.extend({ props: [(a), x, (b)] })'' [] None"

definition exImport :: node where
  "exImport = Node (OtherKind 1) ''import Vue from (vue)'' [] None"

definition exExportObject :: node where
  "exExportObject =
     Node (ExportAssignment exObject) ''export default { props: [(a), x, (b)] }'' [] None"

definition exExportCall :: node where
  "exExportCall =
     Node (ExportAssignment exCall)
       ''export default Vue.extend({ props: [(a), x, (b)] })'' [] None"

definition exExportIdentifier :: node where
  "exExportIdentifier =
     Node (ExportAssignment (Node Identifier ''App'' [] None)) ''export default App'' [] None"

definition exHelperClass :: node where
  "exHelperClass = Node ClassDeclaration ''class Helper {}'' [] None"

text \<open>
  The class \<^verbatim>\<open>@Component(options) class App\<close> with a property \<^verbatim>\<open>@Prop() msg\<close>
  and accessors \<^verbatim>\<open>get total\<close> and \<^verbatim>\<open>set total\<close>; \<^verbatim>\<open>options\<close> is an identifier
  whose type is that of \<open>exObject\<close>.
\<close>

definition exOptions :: node where
  "exOptions = Node Identifier ''options'' [] None"

definition exComponentCall :: node where
  "exComponentCall =
     Node (CallExpression (Node Identifier ''Component'' [] None) [exOptions])
       ''Component(options)'' [] None"

definition exClassDecl :: node where
  "exClassDecl =
     Node ClassDeclaration ''@Component(options) class App {}'' []
       (Some [Decorator exComponentCall])"

definition exMsgDecl :: node where
  "exMsgDecl =
     Node PropertyDeclaration ''@Prop() msg'' []
       (Some [Decorator (Node (CallExpression (Node Identifier ''Prop'' [] None) [])
                           ''Prop()'' [] None)])"

definition exMsgSymbol :: tsSymbol where
  "exMsgSymbol =
     \<lparr> tsSymbol.name = ''msg'', valueDeclaration = Some exMsgDecl,
       declarations = [exMsgDecl], getDocumentationComment = [''The message''] \<rparr>"

text \<open>
  The compiler gives the two accessors of \<open>total\<close> as one property symbol with two
  declarations; the value declaration of the symbol is the first of them.
\<close>

definition exGetter :: node where
  "exGetter = Node GetAccessor ''get total() { return 1 }'' [] None"

definition exSetter :: node where
  "exSetter = Node SetAccessor ''set total(v) {}'' [] None"

definition exTotalSymbol :: tsSymbol where
  "exTotalSymbol =
     \<lparr> tsSymbol.name = ''total'', valueDeclaration = Some exGetter,
       declarations = [exGetter, exSetter], getDocumentationComment = [''The total''] \<rparr>"

definition exClassSymbol :: tsSymbol where
  "exClassSymbol =
     \<lparr> tsSymbol.name = ''App'', valueDeclaration = Some exClassDecl,
       declarations = [exClassDecl], getDocumentationComment = [] \<rparr>"

definition exClassType :: tsType where
  "exClassType =
     \<lparr> isClass = Some True, flags = 524288, objectFlags = 1,
       getProperties = [exMsgSymbol, exTotalSymbol], symbol = exClassSymbol,
       getCallSignatures = [] \<rparr>"

text \<open>The same class with the set accessor written before the get accessor.\<close>

definition exSetterFirstSymbol :: tsSymbol where
  "exSetterFirstSymbol =
     \<lparr> tsSymbol.name = ''total'', valueDeclaration = Some exSetter,
       declarations = [exSetter, exGetter], getDocumentationComment = [''The total''] \<rparr>"

definition exSetterFirstType :: tsType where
  "exSetterFirstType =
     \<lparr> isClass = Some True, flags = 524288, objectFlags = 1,
       getProperties = [exMsgSymbol, exSetterFirstSymbol], symbol = exClassSymbol,
       getCallSignatures = [] \<rparr>"

text \<open>
  A checker that knows the type of \<open>exObject\<close> and of \<open>exOptions\<close> and gives every other
  node a type without members; properties are looked up by name.
\<close>

definition exChecker :: typeChecker where
  "exChecker =
     \<lparr> getTypeAtLocation =
         (\<lambda>n. if n = exObject \<or> n = exOptions then exObjectType else exEmptyType),
       getPropertyOfType = (\<lambda>ty nm. find (\<lambda>s. tsSymbol.name s = nm) (getProperties ty)),
       getTypeOfSymbolAtLocation = (\<lambda>s n. exEmptyType),
       getPropertiesOfType = getProperties,
       getReturnTypeOfSignature = (\<lambda>sg. exEmptyType) \<rparr>"

definition exSourceFile :: "node list \<Rightarrow> sourceFile" where
  "exSourceFile stmts = \<lparr> statements = stmts, getFullText = [] \<rparr>"

definition exProgram :: "node list \<Rightarrow> program" where
  "exProgram stmts =
     \<lparr> getRootFileNames = [''/App.vue''],
       getSourceFile = (\<lambda>f. if f = ''/App.vue'' then Some (exSourceFile stmts) else None),
       getTypeChecker = exChecker \<rparr>"

text \<open>A service that finds nothing: every query comes back empty.\<close>

definition exIdleService :: "program option \<Rightarrow> languageService" where
  "exIdleService prog =
     \<lparr> getProgram = prog,
       getSyntacticDiagnostics = (\<lambda>f. []),
       getSemanticDiagnostics = (\<lambda>f. []),
       getSuggestionDiagnostics = (\<lambda>f. []),
       getCompletionsAtPosition = (\<lambda>f off prefs. None),
       getCompletionEntryDetails = (\<lambda>f off nm fmt src prefs. None),
       getQuickInfoAtPosition = (\<lambda>f off. None),
       getSignatureHelpItems = (\<lambda>f off. None),
       getOccurrencesAtPosition = (\<lambda>f off. None),
       getNavigationBarItems = (\<lambda>f. None),
       getDefinitionAtPosition = (\<lambda>f off. None),
       getReferencesAtPosition = (\<lambda>f off. None),
       getEditsForRefactor = (\<lambda>f fmt r rn an prefs. None),
       getCombinedCodeFix = (\<lambda>f fid fmt prefs. None),
       organizeImports = (\<lambda>f fmt prefs. None),
       getApplicableRefactors = (\<lambda>f r prefs. []),
       getCodeFixesAtPosition = (\<lambda>f s e codes fmt prefs. []),
       getFormattingEditsForRange = (\<lambda>f s e fmt. None) \<rparr>"

definition exService :: "node list \<Rightarrow> languageService" where
  "exService stmts = exIdleService (Some (exProgram stmts))"

definition exFormatCodeSettings :: formatCodeSettings where
  "exFormatCodeSettings =
     \<lparr> convertTabsToSpaces = None, tabSize = None, indentSize = None, baseIndentSize = None,
       insertSpaceAfterCommaDelimiter = None \<rparr>"

definition exConfig :: config where
  "exConfig =
     \<lparr> completion_autoImport = True, completion_tagCasing = ''kebab'',
       format_defaultFormatter_js = ''none'', format_defaultFormatter_ts = ''prettier'',
       format_scriptInitialIndent = False, format_options_tabSize = 2,
       format_options_useTabs = False, javascript_format = exFormatCodeSettings,
       typescript_format = exFormatCodeSettings \<rparr>"

definition exNoChildren ::
  "tsModule \<Rightarrow> tsType \<Rightarrow> typeChecker \<Rightarrow> string \<Rightarrow> internalChildComponent list option" where
  "exNoChildren m ty checker tagCasing = None"

definition exPropsAB :: "memberInfo list" where
  "exPropsAB =
     [\<lparr> memberInfo.name = ''a'', memberInfo.documentation = None \<rparr>,
      \<lparr> memberInfo.name = ''b'', memberInfo.documentation = None \<rparr>]"

text \<open>
  A one-line document model: the offset of a position is its column.  The example
  environment hands back the host document as the script document, with language
  \<open>typescript\<close>, works on paths as they are, and knows one supported fix code.
\<close>

definition exDocument :: "string \<Rightarrow> string \<Rightarrow> textDocument" where
  "exDocument u t =
     \<lparr> textDocument.uri = u, textDocument.languageId = ''vue'', textDocument.getText = t,
       getTextIn = (\<lambda>r. take (character (range.end0 r) - character (range.start r))
                          (drop (character (range.start r)) t)),
       offsetAt = (\<lambda>p. int (character p)),
       positionAt = (\<lambda>off. \<lparr> line = 0, character = nat off \<rparr>) \<rparr>"

definition exNullSignature :: signatureHelp where
  "exNullSignature = \<lparr> signatures = [], activeSignature = 0, activeParameter = 0 \<rparr>"

definition exEnv :: "languageService \<Rightarrow> modeEnv" where
  "exEnv service =
     \<lparr> updateCurrentVueTextDocument =
         (\<lambda>d. (d \<lparr> textDocument.languageId := ''typescript'' \<rparr>, service)),
       firstScriptRegion =
         (\<lambda>d. Some \<lparr> languageRange.start = \<lparr> line = 0, character = 8 \<rparr>,
                      languageRange.end0 = \<lparr> line = 0, character = 11 \<rparr> \<rparr>),
       getFileFsPath = (\<lambda>u. u),
       getFilePath = (\<lambda>u. u),
       Uri_file = (\<lambda>f. ''file://'' @ f),
       TextDocument_create = (\<lambda>f lang v t. (exDocument f t) \<lparr> textDocument.languageId := lang \<rparr>),
       toCompletionItemKind = (\<lambda>k. if k = ''function'' then 3 else if k = ''method'' then 2 else 6),
       toSymbolKind = (\<lambda>k. if k = ''class'' then 5 else 13),
       getSupportedCodeFixes = [''2304'', ''none''],
       Number = (\<lambda>s. if s = ''2304'' then Some 2304 else None),
       prettierify = (\<lambda>code' path r c parser indent. [\<lparr> textEdit.range0 = r, textEdit.newText = code' \<rparr>]),
       prettierEslintify = (\<lambda>code' path r c parser indent. []),
       prettierTslintify = (\<lambda>code' path r c parser indent. []),
       NULL_SIGNATURE = exNullSignature \<rparr>"

definition exAppDoc :: textDocument where
  "exAppDoc = exDocument ''/App.vue'' ''<script>a<b</script>''"

definition exOtherDoc :: textDocument where
  "exOtherDoc = exDocument ''/Other.vue'' ''<script>a<b</script>''"

definition exPosition :: position where
  "exPosition = \<lparr> line = 0, character = 10 \<rparr>"

definition exRange :: range where
  "exRange = \<lparr> range.start = \<lparr> line = 0, character = 8 \<rparr>,
               range.end0 = \<lparr> line = 0, character = 11 \<rparr> \<rparr>"

definition exItem :: completionItem where
  "exItem =
     \<lparr> completionItem.uri = ''/Other.vue'', completionItem.position = exPosition,
       preselect = None, completionItem.label = ''total'', detail = None, filterText = None,
       insertTextFormat = None, completionItem.sortText = ''0'', completionItem.kind = 6,
       textEdit = None, completionItem.insertText = Some ''total'',
       completionItem.data = None, completionItem.documentation = None,
       additionalTextEdits = None \<rparr>"

definition exRequest :: "codeActionReqKind \<Rightarrow> codeActionReq" where
  "exRequest k =
     \<lparr> codeActionReq.kind = k, codeActionReq.fileName = ''/App.vue'',
       textRange = \<lparr> pos = 8, textRange.end0 = 11 \<rparr>,
       formatSettings = exFormatCodeSettings, preferences = noPreferences \<rparr>"

definition exEmptyCommand :: command where
  "exEmptyCommand =
     \<lparr> command.title = [], command.command = ''vetur.applyWorkspaceEdits'',
       command.arguments = [WorkspaceEditArgument []] \<rparr>"

text \<open>
  A service that offers one fix, with a fix-all variant, when asked about code 2304, and
  two diagnostics: one with that code and one with a code that has no fix.
\<close>

definition exFix :: codeFixAction where
  "exFix =
     \<lparr> codeFixAction.description = ''Import total'', codeFixAction.changes = [],
       fixId = Some ''fixMissingImport'', fixAllDescription = Some ''Add all missing imports'' \<rparr>"

definition exFixService :: languageService where
  "exFixService =
     (exService [])
       \<lparr> getCodeFixesAtPosition :=
           (\<lambda>f s e codes fmt prefs. if 2304 \<in> set codes then [exFix] else []) \<rparr>"

definition exDiagnostic :: "int \<Rightarrow> diagnostic" where
  "exDiagnostic n =
     \<lparr> diagnostic.range0 = exRange, severity = SeverityError, message = ''Cannot find name'',
       tags = [], diagnostic.code = NumberCode n, diagnostic.source = ''Vetur'' \<rparr>"

definition exContext :: "diagnostic list \<Rightarrow> codeActionContext" where
  "exContext ds = \<lparr> codeActionContext.diagnostics = ds, only = Some [''quickfix''] \<rparr>"







section \<open>Properties of the component analysis\<close>

lemmas ex_defs =
  exModule_def exPropsArray_def exPropsDecl_def exPropsSymbol_def exObject_def
  exObjectSymbol_def exObjectType_def exEmptyType_def exCallee_def exCall_def exImport_def
  exExportObject_def exExportCall_def exExportIdentifier_def exHelperClass_def exChecker_def
  exSourceFile_def exProgram_def exService_def exIdleService_def exFormatCodeSettings_def exConfig_def exNoChildren_def exPropsAB_def
  exOptions_def exComponentCall_def exClassDecl_def exMsgDecl_def exMsgSymbol_def
  exGetter_def exSetter_def exTotalSymbol_def exClassSymbol_def exClassType_def
  exSetterFirstSymbol_def exSetterFirstType_def

lemmas component_defs =
  getComponentInfo_def getDefaultExportNode_def getNodeFromExportNode_def isExportStmt_def
  analyzeDefaultExportExpr_def getProps_def getData_def getComputed_def getMethods_def
  getClassAndObjectInfo_def isClassType_def undefinedIfEmpty_def orEmpty_def
  getObjectProps_def getObjectData_def getObjectComputed_def getObjectMethods_def
  getLastChild_def isStringLiteral_def literalText_def

lemma filter_first:
  "xs = pre @ st # post \<Longrightarrow> \<forall>s \<in> set pre. \<not> P s \<Longrightarrow> P st \<Longrightarrow>
   filter P xs = st # filter P post"
  by (induction pre arbitrary: xs) auto

lemma isExportStmt_iff:
  "isExportStmt s \<longleftrightarrow> ((\<exists>e. kind s = ExportAssignment e) \<or> kind s = ClassDeclaration)"
  by (auto simp: isExportStmt_def split: syntaxKind.splits)

lemma getComponentInfo_members:
  assumes "getProgram service = Some program"
    and "getSourceFile program fileFsPath = Some sourceFile"
    and "getComponentInfo getChildComponents tsModule service fileFsPath config = Inr (Some vueInfo)"
  shows "\<exists>n i. getDefaultExportNode sourceFile = Some n
           \<and> analyzeDefaultExportExpr tsModule n (getTypeChecker program) = Inr i
           \<and> props vueInfo = props i \<and> data vueInfo = data i
           \<and> computed vueInfo = computed i \<and> methods vueInfo = methods i"
  using assms
  by (auto simp: getComponentInfo_def Let_def split: option.splits sum.splits)

lemma ex_analysis_object:
  "analyzeDefaultExportExpr exModule exObject exChecker =
     Inr (VueFileInfo (Some exPropsAB) None None None None)"
  by (simp add: ex_defs component_defs)

lemma ex_analysis_class:
  "analyzeDefaultExportExpr exModule exHelperClass exChecker =
     Inr (VueFileInfo None None None None None)"
  by (simp add: ex_defs component_defs)

text \<open>
  C5.  The default export node is taken from the first top-level statement that is an
  export assignment or a class declaration: \<open>getDefaultExportNode\<close> is
  \<open>getNodeFromExportNode\<close> of that statement (of its expression, for an export
  assignment), and the member lists that \<open>getComponentInfo\<close> returns are those of the
  analysis of that node.  When no statement of the file is of either kind,
  \<open>getDefaultExportNode\<close> and \<open>getComponentInfo\<close> return undefined.
\<close>

theorem getDefaultExportNode_first_export_statement:
  "(statements sourceFile = pre @ st # post
      \<and> (\<forall>s \<in> set pre. \<not> ((\<exists>e. kind s = ExportAssignment e) \<or> kind s = ClassDeclaration))
      \<and> ((\<exists>e. kind st = ExportAssignment e) \<or> kind st = ClassDeclaration)
    \<longrightarrow> getDefaultExportNode sourceFile =
          getNodeFromExportNode (case kind st of ExportAssignment e \<Rightarrow> e | _ \<Rightarrow> st))
   \<and> ((\<forall>s \<in> set (statements sourceFile).
          \<not> ((\<exists>e. kind s = ExportAssignment e) \<or> kind s = ClassDeclaration))
       \<and> getProgram service = Some program
       \<and> getSourceFile program fileFsPath = Some sourceFile
    \<longrightarrow> getDefaultExportNode sourceFile = None
        \<and> getComponentInfo getChildComponents tsModule service fileFsPath config = Inr None)
   \<and> (getProgram service = Some program
       \<and> getSourceFile program fileFsPath = Some sourceFile
       \<and> getComponentInfo getChildComponents tsModule service fileFsPath config = Inr (Some vueInfo)
    \<longrightarrow> (\<exists>n i. getDefaultExportNode sourceFile = Some n
           \<and> analyzeDefaultExportExpr tsModule n (getTypeChecker program) = Inr i
           \<and> props vueInfo = props i \<and> data vueInfo = data i
           \<and> computed vueInfo = computed i \<and> methods vueInfo = methods i))"
proof (intro conjI impI)
  assume a: "statements sourceFile = pre @ st # post
      \<and> (\<forall>s \<in> set pre. \<not> ((\<exists>e. kind s = ExportAssignment e) \<or> kind s = ClassDeclaration))
      \<and> ((\<exists>e. kind st = ExportAssignment e) \<or> kind st = ClassDeclaration)"
  then have "filter isExportStmt (statements sourceFile) = st # filter isExportStmt post"
    by (intro filter_first[where pre = pre]) (auto simp: isExportStmt_iff)
  then show "getDefaultExportNode sourceFile =
          getNodeFromExportNode (case kind st of ExportAssignment e \<Rightarrow> e | _ \<Rightarrow> st)"
    by (simp add: getDefaultExportNode_def)
next
  assume a: "(\<forall>s \<in> set (statements sourceFile).
          \<not> ((\<exists>e. kind s = ExportAssignment e) \<or> kind s = ClassDeclaration))
       \<and> getProgram service = Some program
       \<and> getSourceFile program fileFsPath = Some sourceFile"
  then have "filter isExportStmt (statements sourceFile) = []"
    by (auto simp: filter_empty_conv isExportStmt_iff)
  then show n: "getDefaultExportNode sourceFile = None"
    by (simp add: getDefaultExportNode_def)
  from a n show "getComponentInfo getChildComponents tsModule service fileFsPath config = Inr None"
    by (simp add: getComponentInfo_def)
next
  assume "getProgram service = Some program
       \<and> getSourceFile program fileFsPath = Some sourceFile
       \<and> getComponentInfo getChildComponents tsModule service fileFsPath config = Inr (Some vueInfo)"
  then show "\<exists>n i. getDefaultExportNode sourceFile = Some n
           \<and> analyzeDefaultExportExpr tsModule n (getTypeChecker program) = Inr i
           \<and> props vueInfo = props i \<and> data vueInfo = data i
           \<and> computed vueInfo = computed i \<and> methods vueInfo = methods i"
    using getComponentInfo_members by blast
qed

theorem getDefaultExportNode_first_export_statement_witness:
  "getDefaultExportNode (exSourceFile [exImport, exExportObject, exHelperClass]) = Some exObject
   \<and> getDefaultExportNode (exSourceFile [exImport]) = None
   \<and> getComponentInfo exNoChildren exModule (exService [exImport]) ''/App.vue'' exConfig = Inr None"
proof -
  have k: "kind exImport = OtherKind 1" "kind exExportObject = ExportAssignment exObject"
    by (simp_all add: ex_defs)
  have s: "statements (exSourceFile [exImport, exExportObject, exHelperClass])
             = [exImport] @ exExportObject # [exHelperClass]"
    by (simp add: exSourceFile_def)
  have o: "getNodeFromExportNode exObject = Some exObject"
    by (simp add: getNodeFromExportNode_def exObject_def)
  have p: "getProgram (exService [exImport]) = Some (exProgram [exImport])"
    "getSourceFile (exProgram [exImport]) ''/App.vue'' = Some (exSourceFile [exImport])"
    "statements (exSourceFile [exImport]) = [exImport]"
    by (simp_all add: exService_def exIdleService_def exProgram_def exSourceFile_def)
  show ?thesis
    using getDefaultExportNode_first_export_statement
            [where sourceFile = "exSourceFile [exImport, exExportObject, exHelperClass]"
               and pre = "[exImport]" and st = exExportObject and post = "[exHelperClass]"]
          getDefaultExportNode_first_export_statement
            [where sourceFile = "exSourceFile [exImport]" and service = "exService [exImport]"
               and program = "exProgram [exImport]" and fileFsPath = "''/App.vue''"
               and getChildComponents = exNoChildren and tsModule = exModule
               and config = exConfig]
    by (simp add: k s o p)
qed

text \<open>
  The statement C10 makes about the first export assignment of a file fails when a class
  declaration precedes it: for \<^verbatim>\<open>class Helper {}\<close> followed by
  \<^verbatim>\<open>export default Vue.extend({ props: [...] })\<close> the node chosen is the class, and
  the props of the call's first argument are not reported; followed by
  \<^verbatim>\<open>export default App\<close> the result is the class, not undefined.
\<close>

theorem getDefaultExportNode_helper_class_counterexample:
  "statements (exSourceFile [exHelperClass, exExportCall]) = [exHelperClass, exExportCall]
   \<and> kind exHelperClass = ClassDeclaration
   \<and> kind exExportCall = ExportAssignment exCall
   \<and> kind exCall = CallExpression exCallee [exObject]
   \<and> getDefaultExportNode (exSourceFile [exHelperClass, exExportCall]) = Some exHelperClass
   \<and> exHelperClass \<noteq> exObject
   \<and> getComponentInfo exNoChildren exModule (exService [exHelperClass, exExportCall])
        ''/App.vue'' exConfig
      = Inr (Some (VueFileInfo None None None None None))
   \<and> analyzeDefaultExportExpr exModule exObject exChecker
      = Inr (VueFileInfo (Some exPropsAB) None None None None)
   \<and> getDefaultExportNode (exSourceFile [exHelperClass, exExportIdentifier])
      = Some exHelperClass"
proof -
  have d: "getDefaultExportNode (exSourceFile [exHelperClass, exExportCall]) = Some exHelperClass"
    "getDefaultExportNode (exSourceFile [exHelperClass, exExportIdentifier]) = Some exHelperClass"
    by (simp_all add: getDefaultExportNode_def getNodeFromExportNode_def isExportStmt_def
        exSourceFile_def exHelperClass_def exExportCall_def exExportIdentifier_def)
  have g: "getComponentInfo exNoChildren exModule (exService [exHelperClass, exExportCall])
        ''/App.vue'' exConfig = Inr (Some (VueFileInfo None None None None None))"
    by (simp add: getComponentInfo_def d ex_analysis_class exService_def exIdleService_def exProgram_def
        exNoChildren_def)
  have k: "kind exHelperClass = ClassDeclaration" "kind exExportCall = ExportAssignment exCall"
    "kind exCall = CallExpression exCallee [exObject]" "exHelperClass \<noteq> exObject"
    "statements (exSourceFile [exHelperClass, exExportCall]) = [exHelperClass, exExportCall]"
    by (simp_all add: ex_defs)
  show ?thesis using d g k ex_analysis_object by simp
qed

text \<open>
  C10 (amended).  When the first top-level statement that is an export assignment or a
  class declaration is an export assignment: if its expression is a call,
  \<open>getDefaultExportNode\<close> returns the call's first argument (undefined for a call
  without arguments) and the member lists of \<open>getComponentInfo\<close> are those of the
  analysis of that argument; if its expression is neither a call, nor an object literal,
  nor a class declaration, \<open>getDefaultExportNode\<close> and \<open>getComponentInfo\<close> return
  undefined.
\<close>

theorem getDefaultExportNode_export_assignment:
  assumes "statements sourceFile = pre @ st # post"
    and "\<forall>s \<in> set pre. \<not> ((\<exists>e. kind s = ExportAssignment e) \<or> kind s = ClassDeclaration)"
    and "kind st = ExportAssignment exportExpr"
  shows
    "(kind exportExpr = CallExpression callee args
        \<longrightarrow> getDefaultExportNode sourceFile = (case args of [] \<Rightarrow> None | a # rest \<Rightarrow> Some a))
     \<and> (kind exportExpr = CallExpression callee (a # rest)
          \<and> getProgram service = Some program
          \<and> getSourceFile program fileFsPath = Some sourceFile
          \<and> getComponentInfo getChildComponents tsModule service fileFsPath config
              = Inr (Some vueInfo)
        \<longrightarrow> (\<exists>i. analyzeDefaultExportExpr tsModule a (getTypeChecker program) = Inr i
              \<and> props vueInfo = props i \<and> data vueInfo = data i
              \<and> computed vueInfo = computed i \<and> methods vueInfo = methods i))
     \<and> ((\<forall>c as. kind exportExpr \<noteq> CallExpression c as)
          \<and> kind exportExpr \<noteq> ObjectLiteralExpression
          \<and> kind exportExpr \<noteq> ClassDeclaration
        \<longrightarrow> getDefaultExportNode sourceFile = None
            \<and> (getProgram service = Some program
                 \<and> getSourceFile program fileFsPath = Some sourceFile
               \<longrightarrow> getComponentInfo getChildComponents tsModule service fileFsPath config
                     = Inr None))"
proof -
  have "filter isExportStmt (statements sourceFile) = st # filter isExportStmt post"
    using assms by (intro filter_first[where pre = pre]) (auto simp: isExportStmt_iff)
  then have d: "getDefaultExportNode sourceFile = getNodeFromExportNode exportExpr"
    using assms(3) by (simp add: getDefaultExportNode_def)
  have c1: "kind exportExpr = CallExpression callee args
        \<longrightarrow> getDefaultExportNode sourceFile = (case args of [] \<Rightarrow> None | a # rest \<Rightarrow> Some a)"
    by (simp add: d getNodeFromExportNode_def)
  have c2: "kind exportExpr = CallExpression callee (a # rest)
          \<and> getProgram service = Some program
          \<and> getSourceFile program fileFsPath = Some sourceFile
          \<and> getComponentInfo getChildComponents tsModule service fileFsPath config
              = Inr (Some vueInfo)
        \<longrightarrow> (\<exists>i. analyzeDefaultExportExpr tsModule a (getTypeChecker program) = Inr i
              \<and> props vueInfo = props i \<and> data vueInfo = data i
              \<and> computed vueInfo = computed i \<and> methods vueInfo = methods i)"
  proof
    assume h: "kind exportExpr = CallExpression callee (a # rest)
          \<and> getProgram service = Some program
          \<and> getSourceFile program fileFsPath = Some sourceFile
          \<and> getComponentInfo getChildComponents tsModule service fileFsPath config
              = Inr (Some vueInfo)"
    then have "getDefaultExportNode sourceFile = Some a"
      by (simp add: d getNodeFromExportNode_def)
    with h getComponentInfo_members[of service program fileFsPath sourceFile getChildComponents
        tsModule config vueInfo]
    show "\<exists>i. analyzeDefaultExportExpr tsModule a (getTypeChecker program) = Inr i
              \<and> props vueInfo = props i \<and> data vueInfo = data i
              \<and> computed vueInfo = computed i \<and> methods vueInfo = methods i"
      by auto
  qed
  have c3: "(\<forall>c as. kind exportExpr \<noteq> CallExpression c as)
          \<and> kind exportExpr \<noteq> ObjectLiteralExpression
          \<and> kind exportExpr \<noteq> ClassDeclaration
        \<longrightarrow> getDefaultExportNode sourceFile = None
            \<and> (getProgram service = Some program
                 \<and> getSourceFile program fileFsPath = Some sourceFile
               \<longrightarrow> getComponentInfo getChildComponents tsModule service fileFsPath config
                     = Inr None)"
    by (auto simp: d getNodeFromExportNode_def getComponentInfo_def split: syntaxKind.splits)
  from c1 c2 c3 show ?thesis by blast
qed

theorem getDefaultExportNode_export_assignment_witness:
  "getDefaultExportNode (exSourceFile [exImport, exExportCall, exHelperClass]) = Some exObject
   \<and> (\<exists>i. analyzeDefaultExportExpr exModule exObject exChecker = Inr i
          \<and> Some exPropsAB = props i \<and> None = data i \<and> None = computed i \<and> None = methods i)
   \<and> getDefaultExportNode (exSourceFile [exImport, exExportIdentifier]) = None
   \<and> getComponentInfo exNoChildren exModule (exService [exImport, exExportIdentifier])
        ''/App.vue'' exConfig = Inr None"
proof -
  let ?stmts = "[exImport, exExportCall, exHelperClass]"
  let ?stmts' = "[exImport, exExportIdentifier]"
  have k: "kind exImport = OtherKind 1" "kind exExportCall = ExportAssignment exCall"
    "kind exCall = CallExpression exCallee [exObject]"
    "kind exExportIdentifier = ExportAssignment (Node Identifier ''App'' [] None)"
    by (simp_all add: ex_defs)
  have s: "statements (exSourceFile ?stmts) = [exImport] @ exExportCall # [exHelperClass]"
    "statements (exSourceFile ?stmts') = [exImport] @ exExportIdentifier # []"
    by (simp_all add: exSourceFile_def)
  have p: "getProgram (exService ?stmts) = Some (exProgram ?stmts)"
    "getSourceFile (exProgram ?stmts) ''/App.vue'' = Some (exSourceFile ?stmts)"
    "getProgram (exService ?stmts') = Some (exProgram ?stmts')"
    "getSourceFile (exProgram ?stmts') ''/App.vue'' = Some (exSourceFile ?stmts')"
    "getTypeChecker (exProgram ?stmts) = exChecker"
    by (simp_all add: exService_def exIdleService_def exProgram_def)
  have d: "getDefaultExportNode (exSourceFile ?stmts) = Some exObject"
    by (simp add: getDefaultExportNode_def getNodeFromExportNode_def isExportStmt_def
        exSourceFile_def exImport_def exExportCall_def exCall_def)
  have g: "getComponentInfo exNoChildren exModule (exService ?stmts) ''/App.vue'' exConfig
             = Inr (Some (VueFileInfo (Some exPropsAB) None None None None))"
    by (simp add: getComponentInfo_def d ex_analysis_object exService_def exIdleService_def exProgram_def
        exNoChildren_def)
  show ?thesis
    using getDefaultExportNode_export_assignment
            [where sourceFile = "exSourceFile ?stmts" and pre = "[exImport]"
               and st = exExportCall and post = "[exHelperClass]" and exportExpr = exCall
               and callee = exCallee and args = "[exObject]" and a = exObject and rest = "[]"
               and service = "exService ?stmts" and program = "exProgram ?stmts"
               and fileFsPath = "''/App.vue''" and getChildComponents = exNoChildren
               and tsModule = exModule and config = exConfig
               and vueInfo = "VueFileInfo (Some exPropsAB) None None None None"]
          getDefaultExportNode_export_assignment
            [where sourceFile = "exSourceFile ?stmts'" and pre = "[exImport]"
               and st = exExportIdentifier and post = "[]"
               and exportExpr = "Node Identifier ''App'' [] None"
               and service = "exService ?stmts'" and program = "exProgram ?stmts'"
               and fileFsPath = "''/App.vue''" and getChildComponents = exNoChildren
               and tsModule = exModule and config = exConfig]
    by (simp add: k s p g)
qed

lemma string_literal_texts:
  "map literalText (filter isStringLiteral es) =
     List.map_filter (\<lambda>e. case kind e of StringLiteral t \<Rightarrow> Some t | _ \<Rightarrow> None) es"
  by (induction es)
     (auto simp: List.map_filter_simps literalText_def isStringLiteral_def split: syntaxKind.splits)

text \<open>
  C8.  For a default export that is not a class and whose \<open>props\<close> property is declared
  with an array literal (the last child of the property's declaration), \<open>getProps\<close>
  returns one prop per string-literal element, named by the string's text and without
  documentation, in element order; other elements contribute nothing, and when no
  element is a string literal the result is undefined, not an empty list or an error.
\<close>

theorem getProps_array_literal:
  assumes "\<not> isClassType tsModule defaultExportType"
    and "getPropertyOfType checker defaultExportType ''props'' = Some propsSymbol"
    and "valueDeclaration propsSymbol = Some propsAssignment"
    and "getChildren propsAssignment \<noteq> []"
    and "kind (last (getChildren propsAssignment)) = ArrayLiteralExpression elements"
  shows "getProps tsModule defaultExportType checker =
           (let names = List.map_filter
                          (\<lambda>e. case kind e of StringLiteral t \<Rightarrow> Some t | _ \<Rightarrow> None) elements
            in Inr (if names = [] then None
                    else Some (map (\<lambda>t. \<lparr> memberInfo.name = t,
                                            memberInfo.documentation = None \<rparr>) names)))"
proof -
  have "getObjectProps checker defaultExportType =
          Inr (Some (map (\<lambda>expr. \<lparr> memberInfo.name = literalText expr,
                                    memberInfo.documentation = None \<rparr>)
                       (filter isStringLiteral elements)))"
    using assms(2-5) by (simp add: getObjectProps_def getLastChild_def)
  moreover have "map (\<lambda>expr. \<lparr> memberInfo.name = literalText expr,
                                memberInfo.documentation = None \<rparr>)
                   (filter isStringLiteral elements)
        = map (\<lambda>t. \<lparr> memberInfo.name = t, memberInfo.documentation = None \<rparr>)
            (map literalText (filter isStringLiteral elements))"
    by (simp add: comp_def)
  ultimately show ?thesis
    using assms(1)
    by (simp add: getProps_def getClassAndObjectInfo_def undefinedIfEmpty_def orEmpty_def
        string_literal_texts Let_def)
qed

theorem getProps_array_literal_witness:
  "getProps exModule exObjectType exChecker = Inr (Some exPropsAB)"
proof -
  have h: "\<not> isClassType exModule exObjectType"
    "getPropertyOfType exChecker exObjectType ''props'' = Some exPropsSymbol"
    "valueDeclaration exPropsSymbol = Some exPropsDecl"
    "getChildren exPropsDecl \<noteq> []"
    "kind (last (getChildren exPropsDecl)) =
       ArrayLiteralExpression
         [Node (StringLiteral ''a'') ''(a)'' [] None, Node Identifier ''x'' [] None,
          Node (StringLiteral ''b'') ''(b)'' [] None]"
    by (simp_all add: ex_defs isClassType_def)
  show ?thesis
    using getProps_array_literal[OF h]
    by (simp add: List.map_filter_simps exPropsAB_def)
qed

lemma filterE_valueDeclarationIs:
  "\<forall>p \<in> set ps. valueDeclaration p \<noteq> None \<Longrightarrow>
   filterE (valueDeclarationIs k) ps =
     Inr (filter (\<lambda>p. case valueDeclaration p of Some d \<Rightarrow> kind d = k | None \<Rightarrow> False) ps)"
  by (induction ps) (auto simp: valueDeclarationIs_def)

lemma filterE_missing_declaration:
  "p \<in> set ps \<Longrightarrow> valueDeclaration p = None \<Longrightarrow>
   filterE (valueDeclarationIs k) ps = Inl TypeError"
proof (induction ps)
  case Nil
  then show ?case by simp
next
  case (Cons q qs)
  show ?case
  proof (cases "valueDeclaration q")
    case None
    then show ?thesis by (simp add: valueDeclarationIs_def)
  next
    case (Some d)
    with Cons.prems have "p \<in> set qs" by auto
    from Cons.IH[OF this Cons.prems(2)] Some show ?thesis
      by (simp add: valueDeclarationIs_def)
  qed
qed

text \<open>
  The property symbols of a type have different names.  Then no symbol whose value
  declaration is a set accessor shares its name with one whose value declaration is a
  get accessor, the lookup of \<open>setComputed\<close> finds nothing, and every computed entry of
  a class is documented by its own symbol alone.
\<close>

lemma getClassComputed_unique_names:
  assumes "distinct (map tsSymbol.name (getProperties ty))"
  shows "getClassComputed ty ty =
           (case filterE (valueDeclarationIs GetAccessor) (getProperties ty) of
              Inl e \<Rightarrow> Inl e
            | Inr getAccessorSymbols \<Rightarrow>
                Inr (if getAccessorSymbols = [] then None
                     else Some (map documented getAccessorSymbols)))"
proof (cases "\<forall>p \<in> set (getProperties ty). valueDeclaration p \<noteq> None")
  case True
  let ?isGetter = "\<lambda>p. case valueDeclaration p of Some d \<Rightarrow> kind d = GetAccessor | None \<Rightarrow> False"
  let ?isSetter = "\<lambda>p. case valueDeclaration p of Some d \<Rightarrow> kind d = SetAccessor | None \<Rightarrow> False"
  have none: "find (\<lambda>setAccessor. tsSymbol.name setAccessor = tsSymbol.name g)
                (filter ?isSetter (getProperties ty)) = None"
    if g: "g \<in> set (filter ?isGetter (getProperties ty))" for g
  proof -
    have "\<not> (?isSetter s \<and> tsSymbol.name s = tsSymbol.name g)"
      if s: "s \<in> set (getProperties ty)" for s
    proof
      assume a: "?isSetter s \<and> tsSymbol.name s = tsSymbol.name g"
      from assms have "inj_on tsSymbol.name (set (getProperties ty))"
        by (simp add: distinct_map)
      with s g a have "s = g"
        by (auto dest: inj_onD)
      with a g show False
        by (auto split: option.splits)
    qed
    then show ?thesis
      by (auto simp: find_None_iff)
  qed
  have "map (\<lambda>computed.
               \<lparr> memberInfo.name = tsSymbol.name computed,
                 memberInfo.documentation =
                   Some (buildDocumentation computed @
                         (case find (\<lambda>setAccessor. tsSymbol.name setAccessor = tsSymbol.name computed)
                                 (filter ?isSetter (getProperties ty)) of
                            Some sc \<Rightarrow> buildDocumentation sc
                          | None \<Rightarrow> [])) \<rparr>)
          (filter ?isGetter (getProperties ty))
        = map documented (filter ?isGetter (getProperties ty))"
    by (rule map_cong) (simp_all add: none documented_def)
  then show ?thesis
    by (simp add: getClassComputed_def filterE_valueDeclarationIs[OF True] Let_def)
next
  case False
  then obtain p where "p \<in> set (getProperties ty)" and "valueDeclaration p = None"
    by blast
  then show ?thesis
    by (simp add: getClassComputed_def filterE_missing_declaration)
qed

text \<open>
  C7.  The class of the examples declares \<^verbatim>\<open>get total\<close> and then \<^verbatim>\<open>set total\<close>, which
  the compiler gives as the one property symbol \<open>total\<close> with the get accessor as its
  value declaration.  \<open>getComputed\<close> returns one entry for it, documented by the comment
  of the symbol and the text of the get accessor: the text of the set accessor is not
  appended, since no symbol named \<open>total\<close> has a set accessor as its value declaration.
  With the set accessor written first, the value declaration of the symbol is the set
  accessor and the class has no computed entry at all.
\<close>

theorem getComputed_accessor_pair:
  "getProperties exClassType = [exMsgSymbol, exTotalSymbol]
   \<and> tsSymbol.name exTotalSymbol = ''total''
   \<and> declarations exTotalSymbol = [exGetter, exSetter]
   \<and> valueDeclaration exTotalSymbol = Some exGetter
   \<and> kind exGetter = GetAccessor \<and> getText exGetter = ''get total() { return 1 }''
   \<and> kind exSetter = SetAccessor \<and> getText exSetter = ''set total(v) {}''
   \<and> getComputed exModule exClassType exChecker =
       Inr (Some [\<lparr> memberInfo.name = ''total'',
                    memberInfo.documentation =
                      Some (''The total'' @ [newline] @ ''```js'' @ [newline]
                            @ ''get total() { return 1 }'' @ [newline] @ ''```''
                            @ [newline]) \<rparr>])
   \<and> getProperties exSetterFirstType = [exMsgSymbol, exSetterFirstSymbol]
   \<and> declarations exSetterFirstSymbol = [exSetter, exGetter]
   \<and> valueDeclaration exSetterFirstSymbol = Some exSetter
   \<and> getComputed exModule exSetterFirstType exChecker = Inr None"
proof -
  have c: "isClassType exModule exClassType" "isClassType exModule exSetterFirstType"
    by (simp_all add: isClassType_def exClassType_def exSetterFirstType_def)
  have a: "getComponentDecoratorArgumentType exClassType exChecker = Inr (Some exObjectType)"
    "getComponentDecoratorArgumentType exSetterFirstType exChecker = Inr (Some exObjectType)"
    by (simp_all add: getComponentDecoratorArgumentType_def decoratorName_def ex_defs)
  have b: "getObjectComputed exChecker exObjectType = Inr None"
    by (simp add: getObjectComputed_def ex_defs)
  have k: "getProperties exClassType = [exMsgSymbol, exTotalSymbol]"
    "getProperties exSetterFirstType = [exMsgSymbol, exSetterFirstSymbol]"
    "tsSymbol.name exTotalSymbol = ''total''"
    "declarations exTotalSymbol = [exGetter, exSetter]"
    "valueDeclaration exTotalSymbol = Some exGetter"
    "declarations exSetterFirstSymbol = [exSetter, exGetter]"
    "valueDeclaration exSetterFirstSymbol = Some exSetter"
    "valueDeclaration exMsgSymbol = Some exMsgDecl" "kind exMsgDecl = PropertyDeclaration"
    "kind exGetter = GetAccessor" "getText exGetter = ''get total() { return 1 }''"
    "kind exSetter = SetAccessor" "getText exSetter = ''set total(v) {}''"
    "getDocumentationComment exTotalSymbol = [''The total'']"
    by (simp_all add: exClassType_def exSetterFirstType_def exTotalSymbol_def
          exSetterFirstSymbol_def exMsgSymbol_def exMsgDecl_def exGetter_def exSetter_def)
  have f: "formatJSLikeDocumentation ''get total() { return 1 }'' = ''get total() { return 1 }''"
    by (simp add: formatJSLikeDocumentation_def newline_def)
  have d: "buildDocumentation exTotalSymbol =
             ''The total'' @ [newline] @ ''```js'' @ [newline]
               @ ''get total() { return 1 }'' @ [newline] @ ''```'' @ [newline]"
    by (simp add: buildDocumentation_def k f)
  have g: "getClassComputed exClassType exClassType =
             Inr (Some [\<lparr> memberInfo.name = ''total'',
                          memberInfo.documentation = Some (buildDocumentation exTotalSymbol) \<rparr>])"
    by (simp add: getClassComputed_def valueDeclarationIs_def k)
  have h: "getClassComputed exSetterFirstType exSetterFirstType = Inr None"
    by (simp add: getClassComputed_def valueDeclarationIs_def k)
  have "getComputed exModule exClassType exChecker =
       Inr (Some [\<lparr> memberInfo.name = ''total'',
                    memberInfo.documentation = Some (buildDocumentation exTotalSymbol) \<rparr>])"
    by (simp add: getComputed_def getClassAndObjectInfo_def undefinedIfEmpty_def orEmpty_def
          c a b g)
  moreover have "getComputed exModule exSetterFirstType exChecker = Inr None"
    by (simp add: getComputed_def getClassAndObjectInfo_def undefinedIfEmpty_def orEmpty_def
          c a b h)
  ultimately show ?thesis
    using k by (simp add: d)
qed

lemma getComponentDecoratorArgumentType_Some_iff:
  "getComponentDecoratorArgumentType ty checker = Inr (Some t) \<longleftrightarrow>
     (\<exists>d0 ds decs componentDecorator callee a args.
        declarations (symbol ty) = d0 # ds
        \<and> decorators d0 = Some decs
        \<and> find (\<lambda>el. decoratorName el = ''Component'') decs = Some componentDecorator
        \<and> kind (expression componentDecorator) = CallExpression callee (a # args)
        \<and> t = getTypeAtLocation checker a)"
  by (auto simp: getComponentDecoratorArgumentType_def
           split: option.splits syntaxKind.splits list.splits)

lemma ex_getClassProps: "getClassProps exClassType = Inr (Some [documented exMsgSymbol])"
  by (simp add: getClassProps_def getPropertyDecoratorNames_def decoratorName_def
      exClassType_def exMsgSymbol_def exMsgDecl_def exTotalSymbol_def exGetter_def)

lemma ex_getObjectProps: "getObjectProps exChecker exObjectType = Inr (Some exPropsAB)"
  by (simp add: getObjectProps_def getLastChild_def isStringLiteral_def literalText_def ex_defs)

lemma ex_decoratorArgument:
  "getComponentDecoratorArgumentType exClassType exChecker = Inr (Some exObjectType)"
  by (simp add: getComponentDecoratorArgumentType_def decoratorName_def ex_defs)

text \<open>
  The statement C4 makes about the decorator argument fails for
  \<^verbatim>\<open>@Component(options)\<close>: the first argument is an identifier, not an object
  literal, and the props found through its type are merged after the class's own.
\<close>

theorem getClassAndObjectInfo_identifier_argument_counterexample:
  "isClassType exModule exClassType
   \<and> declarations (symbol exClassType) = [exClassDecl]
   \<and> decorators exClassDecl = Some [Decorator exComponentCall]
   \<and> kind exComponentCall = CallExpression (Node Identifier ''Component'' [] None) [exOptions]
   \<and> kind exOptions = Identifier
   \<and> getClassProps exClassType = Inr (Some [documented exMsgSymbol])
   \<and> getProps exModule exClassType exChecker = Inr (Some (documented exMsgSymbol # exPropsAB))"
proof -
  have c: "isClassType exModule exClassType"
    by (simp add: isClassType_def exClassType_def)
  have "getProps exModule exClassType exChecker = Inr (Some (documented exMsgSymbol # exPropsAB))"
    by (simp add: getProps_def getClassAndObjectInfo_def c ex_getClassProps ex_getObjectProps
        ex_decoratorArgument undefinedIfEmpty_def orEmpty_def)
  moreover have "declarations (symbol exClassType) = [exClassDecl]"
    "decorators exClassDecl = Some [Decorator exComponentCall]"
    "kind exComponentCall = CallExpression (Node Identifier ''Component'' [] None) [exOptions]"
    "kind exOptions = Identifier"
    by (simp_all add: ex_defs)
  ultimately show ?thesis using c ex_getClassProps by simp
qed

text \<open>
  C4 (amended).  For a class-shaped default export, every category extractor goes through
  \<open>getClassAndObjectInfo\<close>, which merges object-style results exactly when the
  first declaration of the class carries decorators whose first one named
  \<open>Component\<close> is a call with at least one argument, whatever kind of expression that
  argument is; the object-style extractor is then applied to the checker's type of the
  first argument, and the class-derived members come first in the merged list.
  Otherwise the result is the class-derived members alone.
\<close>

theorem getClassAndObjectInfo_class_merge:
  assumes "isClassType tsModule ty"
    and "getClassResult ty = Inr classMembers"
  shows
    "(\<forall>t. getComponentDecoratorArgumentType ty checker = Inr (Some t) \<longleftrightarrow>
         (\<exists>d0 ds decs componentDecorator callee a args.
            declarations (symbol ty) = d0 # ds
            \<and> decorators d0 = Some decs
            \<and> find (\<lambda>el. decoratorName el = ''Component'') decs = Some componentDecorator
            \<and> kind (expression componentDecorator) = CallExpression callee (a # args)
            \<and> t = getTypeAtLocation checker a))
     \<and> (\<forall>t objectMembers.
           getComponentDecoratorArgumentType ty checker = Inr (Some t)
           \<and> getObjectResult t = Inr objectMembers
         \<longrightarrow> getClassAndObjectInfo tsModule ty checker getClassResult getObjectResult
               = Inr (orEmpty classMembers @ orEmpty objectMembers))
     \<and> (getComponentDecoratorArgumentType ty checker = Inr None
         \<longrightarrow> getClassAndObjectInfo tsModule ty checker getClassResult getObjectResult
               = Inr (orEmpty classMembers))"
proof (intro conjI allI impI)
  fix t
  show "getComponentDecoratorArgumentType ty checker = Inr (Some t) \<longleftrightarrow>
         (\<exists>d0 ds decs componentDecorator callee a args.
            declarations (symbol ty) = d0 # ds
            \<and> decorators d0 = Some decs
            \<and> find (\<lambda>el. decoratorName el = ''Component'') decs = Some componentDecorator
            \<and> kind (expression componentDecorator) = CallExpression callee (a # args)
            \<and> t = getTypeAtLocation checker a)"
    by (rule getComponentDecoratorArgumentType_Some_iff)
next
  fix t objectMembers
  assume "getComponentDecoratorArgumentType ty checker = Inr (Some t)
           \<and> getObjectResult t = Inr objectMembers"
  with assms
  show "getClassAndObjectInfo tsModule ty checker getClassResult getObjectResult
               = Inr (orEmpty classMembers @ orEmpty objectMembers)"
    by (simp add: getClassAndObjectInfo_def)
next
  assume "getComponentDecoratorArgumentType ty checker = Inr None"
  with assms
  show "getClassAndObjectInfo tsModule ty checker getClassResult getObjectResult
               = Inr (orEmpty classMembers)"
    by (simp add: getClassAndObjectInfo_def)
qed

theorem getClassAndObjectInfo_class_merge_witness:
  "getComponentDecoratorArgumentType exClassType exChecker = Inr (Some exObjectType)
   \<and> getClassAndObjectInfo exModule exClassType exChecker getClassProps (getObjectProps exChecker)
       = Inr (documented exMsgSymbol # exPropsAB)"
proof -
  have c: "isClassType exModule exClassType"
    by (simp add: isClassType_def exClassType_def)
  show ?thesis
    using getClassAndObjectInfo_class_merge
            [where tsModule = exModule and ty = exClassType and getClassResult = getClassProps
               and classMembers = "Some [documented exMsgSymbol]" and checker = exChecker
               and getObjectResult = "getObjectProps exChecker"]
      c ex_getClassProps ex_decoratorArgument ex_getObjectProps
    by (simp add: orEmpty_def)
qed

section \<open>Properties of the script mode\<close>

text \<open>
  In the theorems of this section the language service has a program, which
  \<open>languageServiceIncludesFile\<close> asserts before it reads the root file names.
\<close>

lemmas exjs_defs = exDocument_def exNullSignature_def exEnv_def exAppDoc_def exOtherDoc_def
  exPosition_def exRange_def exItem_def exRequest_def exEmptyCommand_def

text \<open>
  C3.  When the character of the host document just before the cursor (the code unit
  before the script document's offset of the position) is \<open><\<close>, \<open>*\<close> or \<open>:\<close>,
  \<open>doComplete\<close> returns the empty, not-incomplete list, whatever
  \<open>getCompletionsAtPosition\<close> would answer.
\<close>

theorem doComplete_non_script_trigger:
  assumes "updateCurrentVueTextDocument env doc =
             (scriptDoc, service \<lparr> getCompletionsAtPosition := completions \<rparr>)"
    and "getProgram service = Some prog"
    and "offsetAt scriptDoc position' = int k + 1"
    and "k < length (textDocument.getText doc)"
    and "textDocument.getText doc ! k \<in> {CHR ''<'', CHR ''*'', CHR '':''}"
  shows "doComplete env c doc position' =
           Inr \<lparr> isIncomplete = False, completionList.items = [] \<rparr>"
proof -
  have t: "charAt (textDocument.getText doc) (offsetAt scriptDoc position' - 1)
             = Some (textDocument.getText doc ! k)"
    using assms(3,4) by (simp add: charAt_def)
  have m: "textDocument.getText doc ! k \<in> set NON_SCRIPT_TRIGGERS"
    using assms(5) by (simp add: NON_SCRIPT_TRIGGERS_def)
  show ?thesis
    using assms(1,2) t m
    by (simp add: doComplete_def languageServiceIncludesFile_def emptyCompletionList_def
          Let_def split: bool.splits)
qed

theorem doComplete_non_script_trigger_witness:
  "doComplete (exEnv (exService [])) exConfig exAppDoc exPosition =
     Inr \<lparr> isIncomplete = False, completionList.items = [] \<rparr>"
proof -
  have h: "updateCurrentVueTextDocument (exEnv (exService [])) exAppDoc =
             (exAppDoc \<lparr> textDocument.languageId := ''typescript'' \<rparr>,
              (exService []) \<lparr> getCompletionsAtPosition := (\<lambda>f off prefs. None) \<rparr>)"
    "getProgram (exService []) = Some (exProgram [])"
    "offsetAt (exAppDoc \<lparr> textDocument.languageId := ''typescript'' \<rparr>) exPosition = int 9 + 1"
    "9 < length (textDocument.getText exAppDoc)"
    "textDocument.getText exAppDoc ! 9 \<in> {CHR ''<'', CHR ''*'', CHR '':''}"
    by (simp_all add: exjs_defs exService_def exIdleService_def)
  show ?thesis
    by (rule doComplete_non_script_trigger[OF h])
qed


text \<open>
  Of the operations C1 lists, \<open>getCodeActions\<close>, \<open>getCodeActionEdits\<close> and \<open>format\<close>
  do not ask whether the file is a root file: for a file outside the root files a
  request for organize-imports actions returns an action, and formatting with the
  external formatter returns that formatter's edits.
\<close>

theorem operations_without_membership_check_counterexample:
  "getProgram (exService []) = Some (exProgram [])
   \<and> getFilePath (exEnv (exService [])) (textDocument.uri exOtherDoc)
        \<notin> set (getRootFileNames (exProgram []))
   \<and> snd (getCodeActions (exEnv (exService [])) exConfig None exOtherDoc exRange
            \<lparr> codeActionContext.diagnostics = [], only = Some [''source.organizeImports''] \<rparr>)
       = Inr [\<lparr> codeAction.title = ''Organize Imports'',
                codeAction.kind = ''source.organizeImports'',
                codeAction.diagnostics = None,
                codeAction.command =
                  \<lparr> command.title = ''Organize Imports'',
                    command.command = ''vetur.chooseTypeScriptCodeAction'',
                    command.arguments =
                      [RequestArgument
                         \<lparr> codeActionReq.kind = OrganizeImports,
                           codeActionReq.fileName = ''/Other.vue'',
                           textRange = \<lparr> pos = 8, textRange.end0 = 11 \<rparr>,
                           formatSettings = getFormatCodeSettings exConfig,
                           preferences = noPreferences \<rparr>] \<rparr> \<rparr>]
   \<and> snd (format (exEnv (exService [])) exConfig exOtherDoc exRange
            \<lparr> formattingOptions.tabSize = 2, insertSpaces = True \<rparr>)
       = [\<lparr> textEdit.range0 = exRange, textEdit.newText = ''a<b'' \<rparr>]"
proof -
  have a: "updateCurrentVueTextDocument (exEnv (exService [])) exOtherDoc =
             (exOtherDoc \<lparr> textDocument.languageId := ''typescript'' \<rparr>, exService [])"
    by (simp add: exEnv_def)
  let ?sd = "exOtherDoc \<lparr> textDocument.languageId := ''typescript'' \<rparr>"
  have e: "getFileFsPath (exEnv (exService [])) = (\<lambda>u. u)"
    by (simp add: exEnv_def)
  have d: "textDocument.uri ?sd = ''/Other.vue''"
    "textDocument.uri exOtherDoc = ''/Other.vue''"
    "offsetAt exOtherDoc (range.start exRange) = 8" "offsetAt exOtherDoc (range.end0 exRange) = 11"
    "getTextIn exOtherDoc exRange = ''a<b''"
    by (simp_all add: exOtherDoc_def exDocument_def exRange_def)
  have q: "provideQuickFixCodeActions (exEnv (exService [])) f r
             \<lparr> codeActionContext.diagnostics = [], only = Some [''source.organizeImports''] \<rparr>
             S fs ps sv [] = Inr []" for f r S fs ps sv
    by (simp add: provideQuickFixCodeActions_def CodeActionKind_QuickFix_def)
  have g: "snd (getCodeActions (exEnv (exService [])) exConfig None exOtherDoc exRange
            \<lparr> codeActionContext.diagnostics = [], only = Some [''source.organizeImports''] \<rparr>)
       = Inr [\<lparr> codeAction.title = ''Organize Imports'',
                codeAction.kind = ''source.organizeImports'',
                codeAction.diagnostics = None,
                codeAction.command =
                  \<lparr> command.title = ''Organize Imports'',
                    command.command = ''vetur.chooseTypeScriptCodeAction'',
                    command.arguments =
                      [RequestArgument
                         \<lparr> codeActionReq.kind = OrganizeImports,
                           codeActionReq.fileName = ''/Other.vue'',
                           textRange = \<lparr> pos = 8, textRange.end0 = 11 \<rparr>,
                           formatSettings = getFormatCodeSettings exConfig,
                           preferences = noPreferences \<rparr>] \<rparr> \<rparr>]"
    by (simp add: getCodeActions_def a q d e Let_def provideOrganizeImports_def
          provideRefactoringCommands_def createRequestCodeActionCommand_def
          CodeActionKind_SourceOrganizeImports_def CodeActionKind_Source_def
          CodeActionKind_Refactor_def CodeActionKind_RefactorExtract_def
          CodeActionKind_RefactorInline_def CodeActionKind_RefactorRewrite_def)
  have pr: "prettierify (exEnv (exService [])) =
             (\<lambda>code' path r c parser indent. [\<lparr> textEdit.range0 = r, textEdit.newText = code' \<rparr>])"
    by (simp add: exEnv_def)
  have l: "textDocument.languageId ?sd = ''typescript''"
    by simp
  have cf: "format_defaultFormatter_ts exConfig = ''prettier''"
    by (simp add: exConfig_def)
  have f: "snd (format (exEnv (exService [])) exConfig exOtherDoc exRange
            \<lparr> formattingOptions.tabSize = 2, insertSpaces = True \<rparr>)
       = [\<lparr> textEdit.range0 = exRange, textEdit.newText = ''a<b'' \<rparr>]"
    by (simp add: format_def a Let_def d e pr l cf)
  have p: "getProgram (exService []) = Some (exProgram [])"
    "getFilePath (exEnv (exService [])) (textDocument.uri exOtherDoc)
        \<notin> set (getRootFileNames (exProgram []))"
    by (simp_all add: exService_def exIdleService_def exProgram_def exEnv_def exOtherDoc_def
          exDocument_def)
  show ?thesis using p g f by simp
qed

text \<open>
  C1 (amended).  When the service has a program whose root file names do not contain the
  host document's file path, each of \<open>doValidation\<close>, \<open>doComplete\<close>, \<open>doResolve\<close>,
  \<open>doHover\<close>, \<open>doSignatureHelp\<close>, \<open>findDocumentHighlight\<close>, \<open>findDocumentSymbols\<close>,
  \<open>findDefinition\<close> and \<open>findReferences\<close> returns the neutral result of its type (no
  diagnostics, the empty not-incomplete list, the unchanged item, no hover contents, the
  null signature, the empty list) and does not throw.
\<close>

theorem operations_return_neutral_outside_root_files:
  assumes "updateCurrentVueTextDocument env doc = (scriptDoc, service)"
    and "getProgram service = Some prog"
    and "getFilePath env (textDocument.uri doc) \<notin> set (getRootFileNames prog)"
  shows "doValidation env tsModule doc = Inr []
       \<and> doComplete env c doc position' = Inr \<lparr> isIncomplete = False, completionList.items = [] \<rparr>
       \<and> doResolve env tsModule c doc item = Inr item
       \<and> doHover env tsModule doc position' = Inr \<lparr> contents = [], hover.range0 = None \<rparr>
       \<and> doSignatureHelp env tsModule doc position' = Inr (NULL_SIGNATURE env)
       \<and> findDocumentHighlight env doc position' = Inr []
       \<and> findDocumentSymbols env doc = Inr []
       \<and> findDefinition env doc position' = Inr []
       \<and> findReferences env doc position' = Inr []"
proof -
  have i: "languageServiceIncludesFile env service (textDocument.uri doc) = Inr False"
    using assms(2,3) by (simp add: languageServiceIncludesFile_def)
  have "doValidation env tsModule doc = Inr []"
    by (simp add: doValidation_def assms(1) i)
  moreover have "doComplete env c doc position' =
                   Inr \<lparr> isIncomplete = False, completionList.items = [] \<rparr>"
    by (simp add: doComplete_def assms(1) i emptyCompletionList_def)
  moreover have "doResolve env tsModule c doc item = Inr item"
    by (simp add: doResolve_def assms(1) i)
  moreover have "doHover env tsModule doc position' = Inr \<lparr> contents = [], hover.range0 = None \<rparr>"
    by (simp add: doHover_def assms(1) i)
  moreover have "doSignatureHelp env tsModule doc position' = Inr (NULL_SIGNATURE env)"
    by (simp add: doSignatureHelp_def assms(1) i)
  moreover have "findDocumentHighlight env doc position' = Inr []"
    by (simp add: findDocumentHighlight_def assms(1) i)
  moreover have "findDocumentSymbols env doc = Inr []"
    by (simp add: findDocumentSymbols_def assms(1) i)
  moreover have "findDefinition env doc position' = Inr []"
    by (simp add: findDefinition_def assms(1) i)
  moreover have "findReferences env doc position' = Inr []"
    by (simp add: findReferences_def assms(1) i)
  ultimately show ?thesis by simp
qed

theorem operations_return_neutral_outside_root_files_witness:
  "doValidation (exEnv (exService [])) exModule exOtherDoc = Inr []
   \<and> doComplete (exEnv (exService [])) exConfig exOtherDoc exPosition
       = Inr \<lparr> isIncomplete = False, completionList.items = [] \<rparr>
   \<and> doResolve (exEnv (exService [])) exModule exConfig exOtherDoc exItem = Inr exItem
   \<and> doHover (exEnv (exService [])) exModule exOtherDoc exPosition
       = Inr \<lparr> contents = [], hover.range0 = None \<rparr>
   \<and> doSignatureHelp (exEnv (exService [])) exModule exOtherDoc exPosition = Inr exNullSignature
   \<and> findDocumentHighlight (exEnv (exService [])) exOtherDoc exPosition = Inr []
   \<and> findDocumentSymbols (exEnv (exService [])) exOtherDoc = Inr []
   \<and> findDefinition (exEnv (exService [])) exOtherDoc exPosition = Inr []
   \<and> findReferences (exEnv (exService [])) exOtherDoc exPosition = Inr []"
proof -
  have h: "updateCurrentVueTextDocument (exEnv (exService [])) exOtherDoc =
             (exOtherDoc \<lparr> textDocument.languageId := ''typescript'' \<rparr>, exService [])"
    "getProgram (exService []) = Some (exProgram [])"
    "getFilePath (exEnv (exService [])) (textDocument.uri exOtherDoc)
        \<notin> set (getRootFileNames (exProgram []))"
    by (simp_all add: exService_def exIdleService_def exProgram_def exEnv_def exOtherDoc_def
          exDocument_def)
  have n: "NULL_SIGNATURE (exEnv (exService [])) = exNullSignature"
    by (simp add: exEnv_def)
  show ?thesis
    using operations_return_neutral_outside_root_files
            [OF h, of exModule exConfig exPosition exItem]
    by (simp add: n)
qed

text \<open>
  The statement C2 makes for all three request kinds fails for two of them: a null
  answer to \<open>organizeImports\<close> or \<open>getCombinedCodeFix\<close> is dereferenced.
\<close>

theorem getCodeActionEdits_null_result_counterexample:
  "organizeImports (exService []) ''/App.vue'' exFormatCodeSettings noPreferences = None
   \<and> getCodeActionEdits (exEnv (exService [])) exAppDoc (exRequest OrganizeImports)
       = Inl TypeError
   \<and> getCombinedCodeFix (exService []) ''/App.vue'' ''fixAll'' exFormatCodeSettings noPreferences
       = None
   \<and> getCodeActionEdits (exEnv (exService [])) exAppDoc (exRequest (CombinedCodeFix ''fixAll''))
       = Inl TypeError"
  by (simp add: getCodeActionEdits_def exEnv_def exService_def exIdleService_def exRequest_def)

text \<open>
  C2 (amended).  For a refactor action, an absent answer of \<open>getEditsForRefactor\<close> makes
  \<open>getCodeActionEdits\<close> return the apply command with an empty map from file URIs to
  edits, without an error.  For a combined code fix and for organize imports, whose
  answers are declared non-null, an answer without changes gives the same command, and
  a null answer raises a type error.
\<close>

theorem getCodeActionEdits_empty_result:
  assumes "updateCurrentVueTextDocument env doc = (scriptDoc, service)"
  shows
    "(codeActionReq.kind req = RefactorAction refactorName actionName' description'
        \<and> getEditsForRefactor service (codeActionReq.fileName req) (formatSettings req)
             (textRange req) refactorName actionName' (preferences req) = None
      \<longrightarrow> getCodeActionEdits env doc req =
            Inr \<lparr> command.title = [], command.command = ''vetur.applyWorkspaceEdits'',
                  command.arguments = [WorkspaceEditArgument []] \<rparr>)
     \<and> (codeActionReq.kind req = CombinedCodeFix fixId'
        \<and> getCombinedCodeFix service (codeActionReq.fileName req) fixId' (formatSettings req)
             (preferences req) = Some combined
        \<and> combinedCodeActions.changes combined = []
      \<longrightarrow> getCodeActionEdits env doc req =
            Inr \<lparr> command.title = [], command.command = ''vetur.applyWorkspaceEdits'',
                  command.arguments = [WorkspaceEditArgument []] \<rparr>)
     \<and> (codeActionReq.kind req = OrganizeImports
        \<and> organizeImports service (codeActionReq.fileName req) (formatSettings req)
             (preferences req) = Some []
      \<longrightarrow> getCodeActionEdits env doc req =
            Inr \<lparr> command.title = [], command.command = ''vetur.applyWorkspaceEdits'',
                  command.arguments = [WorkspaceEditArgument []] \<rparr>)
     \<and> (codeActionReq.kind req = CombinedCodeFix fixId'
        \<and> getCombinedCodeFix service (codeActionReq.fileName req) fixId' (formatSettings req)
             (preferences req) = None
      \<longrightarrow> getCodeActionEdits env doc req = Inl TypeError)
     \<and> (codeActionReq.kind req = OrganizeImports
        \<and> organizeImports service (codeActionReq.fileName req) (formatSettings req)
             (preferences req) = None
      \<longrightarrow> getCodeActionEdits env doc req = Inl TypeError)"
  using assms
  by (simp add: getCodeActionEdits_def createUriMappingForEdits_def
        createApplyCodeActionCommand_def)

theorem getCodeActionEdits_empty_result_witness:
  "getCodeActionEdits (exEnv (exService [])) exAppDoc
     (exRequest (RefactorAction ''Extract Symbol'' ''function_scope_0'' ''Extract to function''))
     = Inr exEmptyCommand
   \<and> getCodeActionEdits (exEnv ((exService []) \<lparr> organizeImports := (\<lambda>f fmt prefs. Some []) \<rparr>))
       exAppDoc (exRequest OrganizeImports) = Inr exEmptyCommand
   \<and> getCodeActionEdits
        (exEnv ((exService [])
           \<lparr> getCombinedCodeFix :=
               (\<lambda>f fid fmt prefs. Some \<lparr> combinedCodeActions.changes = [] \<rparr>) \<rparr>))
        exAppDoc (exRequest (CombinedCodeFix ''fixAll'')) = Inr exEmptyCommand"
proof -
  let ?s2 = "(exService []) \<lparr> organizeImports := (\<lambda>f fmt prefs. Some []) \<rparr>"
  let ?s3 = "(exService [])
           \<lparr> getCombinedCodeFix :=
               (\<lambda>f fid fmt prefs. Some \<lparr> combinedCodeActions.changes = [] \<rparr>) \<rparr>"
  have u: "updateCurrentVueTextDocument (exEnv sv) exAppDoc =
             (exAppDoc \<lparr> textDocument.languageId := ''typescript'' \<rparr>, sv)" for sv
    by (simp add: exEnv_def)
  note u1 = u[of "exService []"] and u2 = u[of ?s2] and u3 = u[of ?s3]
  show ?thesis
    using getCodeActionEdits_empty_result
            [OF u1,
             where req = "exRequest (RefactorAction ''Extract Symbol'' ''function_scope_0''
                                       ''Extract to function'')"
               and refactorName = "''Extract Symbol''" and actionName' = "''function_scope_0''"
               and description' = "''Extract to function''"]
          getCodeActionEdits_empty_result
            [OF u2, where req = "exRequest OrganizeImports"]
          getCodeActionEdits_empty_result
            [OF u3, where req = "exRequest (CombinedCodeFix ''fixAll'')"
               and fixId' = "''fixAll''"
               and combined = "\<lparr> combinedCodeActions.changes = [] \<rparr>"]
    by (simp add: exRequest_def exService_def exIdleService_def exEmptyCommand_def)
qed

lemma quickFixLoop_strip:
  assumes "\<And>fx. map_sum id (map g) (f1 fx) = map_sum id (map g) (f2 fx)"
    and "map g result1 = map g result2"
  shows "map_sum id (map g) (quickFixLoop f1 fxs result1)
           = map_sum id (map g) (quickFixLoop f2 fxs result2)"
  using assms(2)
proof (induction fxs arbitrary: result1 result2)
  case Nil
  then show ?case by simp
next
  case (Cons fx fxs)
  show ?case
  proof (cases "f1 fx")
    case (Inl e)
    with assms(1)[of fx] have "f2 fx = Inl e" by (cases "f2 fx") auto
    with Inl show ?thesis by simp
  next
    case (Inr acts1)
    with assms(1)[of fx] obtain acts2 where a: "f2 fx = Inr acts2" "map g acts1 = map g acts2"
      by (cases "f2 fx") auto
    have "map g (result1 @ acts1) = map g (result2 @ acts2)"
      using Cons.prems a(2) by simp
    from Cons.IH[OF this] Inr a(1) show ?thesis by simp
  qed
qed

lemma quickFixActions_strip:
  "map_sum id (map (\<lambda>a. a \<lparr> codeAction.diagnostics := None \<rparr>))
     (quickFixActions env file tr (context \<lparr> codeActionContext.diagnostics := ds1 \<rparr>) fs ps service fix)
   = map_sum id (map (\<lambda>a. a \<lparr> codeAction.diagnostics := None \<rparr>))
     (quickFixActions env file tr (context \<lparr> codeActionContext.diagnostics := ds2 \<rparr>) fs ps service fix)"
  by (simp add: quickFixActions_def split: sum.splits)



lemma provideQuickFixCodeActions_unsupported:
  assumes "case toNumber env (diagnostic.code d) of Some k \<Rightarrow> k \<notin> S | None \<Rightarrow> True"
  shows "map_sum id (map (\<lambda>a. a \<lparr> codeAction.diagnostics := None \<rparr>))
           (provideQuickFixCodeActions env file tr
              (context \<lparr> codeActionContext.diagnostics := ds1 @ d # ds2 \<rparr>) S fs ps service [])
       = map_sum id (map (\<lambda>a. a \<lparr> codeAction.diagnostics := None \<rparr>))
           (provideQuickFixCodeActions env file tr
              (context \<lparr> codeActionContext.diagnostics := ds1 @ ds2 \<rparr>) S fs ps service [])"
proof -
  let ?c1 = "context \<lparr> codeActionContext.diagnostics := ds1 @ d # ds2 \<rparr>"
  let ?c2 = "context \<lparr> codeActionContext.diagnostics := ds1 @ ds2 \<rparr>"
  let ?codes = "\<lambda>ds. map the (filter (\<lambda>n. case n of Some k \<Rightarrow> k \<in> S | None \<Rightarrow> False)
                               (map (\<lambda>d. toNumber env (diagnostic.code d)) ds))"
  have c: "?codes (ds1 @ d # ds2) = ?codes (ds1 @ ds2)"
    using assms by (auto split: option.splits)
  have l: "map_sum id (map (\<lambda>a. a \<lparr> codeAction.diagnostics := None \<rparr>))
             (quickFixLoop (quickFixActions env file tr ?c1 fs ps service) fxs [])
         = map_sum id (map (\<lambda>a. a \<lparr> codeAction.diagnostics := None \<rparr>))
             (quickFixLoop (quickFixActions env file tr ?c2 fs ps service) fxs [])" for fxs
    by (rule quickFixLoop_strip) (simp_all add: quickFixActions_strip)
  show ?thesis
    unfolding provideQuickFixCodeActions_def Let_def
    using c l by simp
qed


lemma provideOrganizeImports_strip:
  assumes "map g result1 = map g result2"
  shows "map g (provideOrganizeImports file tr (context \<lparr> codeActionContext.diagnostics := ds1 \<rparr>)
                  fs ps result1)
       = map g (provideOrganizeImports file tr (context \<lparr> codeActionContext.diagnostics := ds2 \<rparr>)
                  fs ps result2)"
  using assms by (simp add: provideOrganizeImports_def)

lemma provideRefactoringCommands_strip:
  assumes "map g result1 = map g result2"
  shows "map g (provideRefactoringCommands file tr
                  (context \<lparr> codeActionContext.diagnostics := ds1 \<rparr>) fs ps service result1)
       = map g (provideRefactoringCommands file tr
                  (context \<lparr> codeActionContext.diagnostics := ds2 \<rparr>) fs ps service result2)"
  using assms by (simp add: provideRefactoringCommands_def Let_def)

lemma getCodeActions_fst:
  "fst (getCodeActions env c st doc range' context) =
     Some (case st of
             None \<Rightarrow> {n. \<exists>s \<in> set (getSupportedCodeFixes env). Number env s = Some n}
           | Some codes \<Rightarrow> codes)"
proof -
  have "set (map the (filter (\<lambda>x. x \<noteq> None) (map (Number env) (getSupportedCodeFixes env))))
          = {n. \<exists>s \<in> set (getSupportedCodeFixes env). Number env s = Some n}"
    by force
  then show ?thesis
    by (cases "updateCurrentVueTextDocument env doc"; cases st)
       (simp_all add: getCodeActions_def Let_def)
qed

lemma getCodeActions_unsupported:
  assumes "fst (getCodeActions env c st doc range'
                  (context \<lparr> codeActionContext.diagnostics := ds1 @ d # ds2 \<rparr>)) = Some S"
    and "case toNumber env (diagnostic.code d) of Some k \<Rightarrow> k \<notin> S | None \<Rightarrow> True"
  shows "map_sum id (map (\<lambda>a. a \<lparr> codeAction.diagnostics := None \<rparr>))
          (snd (getCodeActions env c st doc range'
                  (context \<lparr> codeActionContext.diagnostics := ds1 @ d # ds2 \<rparr>)))
        = map_sum id (map (\<lambda>a. a \<lparr> codeAction.diagnostics := None \<rparr>))
          (snd (getCodeActions env c st doc range'
                  (context \<lparr> codeActionContext.diagnostics := ds1 @ ds2 \<rparr>)))"
proof -
  let ?g = "\<lambda>a. a \<lparr> codeAction.diagnostics := None \<rparr>"
  let ?c1 = "context \<lparr> codeActionContext.diagnostics := ds1 @ d # ds2 \<rparr>"
  let ?c2 = "context \<lparr> codeActionContext.diagnostics := ds1 @ ds2 \<rparr>"
  obtain scriptDoc service where u: "updateCurrentVueTextDocument env doc = (scriptDoc, service)"
    by (cases "updateCurrentVueTextDocument env doc")
  let ?file = "getFileFsPath env (textDocument.uri scriptDoc)"
  let ?tr = "\<lparr> pos = offsetAt scriptDoc (range.start range'),
               textRange.end0 = offsetAt scriptDoc (range.end0 range') \<rparr>"
  let ?fs = "getFormatCodeSettings c"
  have s: "(case st of
              None \<Rightarrow> set (map the (filter (\<lambda>x. x \<noteq> None)
                                      (map (Number env) (getSupportedCodeFixes env))))
            | Some codes \<Rightarrow> codes) = S"
    using assms(1) by (simp add: getCodeActions_def u Let_def)
  have r: "snd (getCodeActions env c st doc range' ctx) =
             (case provideQuickFixCodeActions env ?file ?tr ctx S ?fs noPreferences service [] of
                Inl e \<Rightarrow> Inl e
              | Inr result1 \<Rightarrow>
                  Inr (provideRefactoringCommands ?file ?tr ctx ?fs noPreferences service
                         (provideOrganizeImports ?file ?tr ctx ?fs noPreferences result1)))" for ctx
    by (simp add: getCodeActions_def u Let_def s)
  have q: "map_sum id (map ?g)
             (provideQuickFixCodeActions env ?file ?tr ?c1 S ?fs noPreferences service [])
         = map_sum id (map ?g)
             (provideQuickFixCodeActions env ?file ?tr ?c2 S ?fs noPreferences service [])"
    by (rule provideQuickFixCodeActions_unsupported[OF assms(2)])
  show ?thesis
  proof (cases "provideQuickFixCodeActions env ?file ?tr ?c1 S ?fs noPreferences service []")
    case (Inl e)
    with q have "provideQuickFixCodeActions env ?file ?tr ?c2 S ?fs noPreferences service [] = Inl e"
      by (cases "provideQuickFixCodeActions env ?file ?tr ?c2 S ?fs noPreferences service []") auto
    with Inl show ?thesis by (simp add: r)
  next
    case (Inr r1)
    with q obtain r2 where
      r2: "provideQuickFixCodeActions env ?file ?tr ?c2 S ?fs noPreferences service [] = Inr r2"
        "map ?g r1 = map ?g r2"
      by (cases "provideQuickFixCodeActions env ?file ?tr ?c2 S ?fs noPreferences service []") auto
    have "map ?g (provideRefactoringCommands ?file ?tr ?c1 ?fs noPreferences service
                    (provideOrganizeImports ?file ?tr ?c1 ?fs noPreferences r1))
        = map ?g (provideRefactoringCommands ?file ?tr ?c2 ?fs noPreferences service
                    (provideOrganizeImports ?file ?tr ?c2 ?fs noPreferences r2))"
      by (intro provideRefactoringCommands_strip provideOrganizeImports_strip r2(2))
    with Inr r2(1) show ?thesis by (simp add: r)
  qed
qed

lemma uriMappingLoop_env:
  "uriMappingLoop (env \<lparr> getSupportedCodeFixes := other \<rparr>) prog chs result
     = uriMappingLoop env prog chs result"
  by (induction chs arbitrary: result)
     (auto simp: getSourceDoc_def Let_def split: option.splits sum.splits)

lemma quickFixLoop_cong:
  "(\<And>fx. f1 fx = f2 fx) \<Longrightarrow> quickFixLoop f1 fxs result = quickFixLoop f2 fxs result"
  by (induction fxs arbitrary: result) (simp_all split: sum.splits)

lemma getCodeActions_env:
  "getCodeActions (env \<lparr> getSupportedCodeFixes := other \<rparr>) c (Some S) doc range' context
     = getCodeActions env c (Some S) doc range' context"
proof -
  have q: "quickFixActions (env \<lparr> getSupportedCodeFixes := other \<rparr>) fl tr context fs ps sv fx
             = quickFixActions env fl tr context fs ps sv fx" for fl tr fs ps sv fx
    by (simp add: quickFixActions_def createUriMappingForEdits_def uriMappingLoop_env)
  have n: "toNumber (env \<lparr> getSupportedCodeFixes := other \<rparr>) dc = toNumber env dc" for dc
    by (cases dc) (simp_all add: toNumber_def)
  have p: "provideQuickFixCodeActions (env \<lparr> getSupportedCodeFixes := other \<rparr>) fl tr context S
             fs ps sv []
         = provideQuickFixCodeActions env fl tr context S fs ps sv []" for fl tr fs ps sv
    by (simp add: provideQuickFixCodeActions_def Let_def n quickFixLoop_cong[OF q])
  show ?thesis
    by (simp add: getCodeActions_def Let_def p)
qed

lemma ex_quick_fix_value:
  "snd (getCodeActions (exEnv exFixService) exConfig None exAppDoc exRange
          (exContext [exDiagnostic 9999])) = Inr []
   \<and> map_sum id (map codeAction.title)
        (snd (getCodeActions (exEnv exFixService) exConfig None exAppDoc exRange
                (exContext [exDiagnostic 2304, exDiagnostic 9999])))
      = Inr [''Import total'', ''Add all missing imports'']"
proof -
  have u: "updateCurrentVueTextDocument (exEnv exFixService) exAppDoc =
             (exAppDoc \<lparr> textDocument.languageId := ''typescript'' \<rparr>, exFixService)"
    by (simp add: exEnv_def)
  have e: "getSupportedCodeFixes (exEnv exFixService) = [''2304'', ''none'']"
    "Number (exEnv exFixService) = (\<lambda>s. if s = ''2304'' then Some 2304 else None)"
    "getFileFsPath (exEnv exFixService) = (\<lambda>u. u)"
    by (simp_all add: exEnv_def)
  have f: "getCodeFixesAtPosition exFixService =
             (\<lambda>f s e codes fmt prefs. if 2304 \<in> set codes then [exFix] else [])"
    "getApplicableRefactors exFixService = (\<lambda>f r prefs. [])"
    by (simp_all add: exFixService_def exService_def exIdleService_def)
  show ?thesis
    by (simp add: getCodeActions_def u e f Let_def provideQuickFixCodeActions_def
          provideOrganizeImports_def provideRefactoringCommands_def quickFixActions_def
          createUriMappingForEdits_def toNumber_def exContext_def exDiagnostic_def exFix_def
          truthy_def CodeActionKind_QuickFix_def CodeActionKind_Source_def
          CodeActionKind_SourceOrganizeImports_def CodeActionKind_Refactor_def
          CodeActionKind_RefactorExtract_def CodeActionKind_RefactorInline_def
          CodeActionKind_RefactorRewrite_def)
qed

text \<open>
  C6.  In a code-action request, a diagnostic whose numeric code is not in the set of
  supported fix codes in force contributes nothing to the answer: the codes sent to the
  service, and with them the actions returned, are those of the request without that
  diagnostic, up to the list of the request's diagnostics that every quick-fix action
  carries along.  The set is the mode's variable \<open>supportedCodeFixCodes\<close>: the first
  call fills it with the numeric supported codes, a filled variable is returned as it
  is, the list of supported fixes is not consulted again, and every later call leaves
  the value the first call stored.
\<close>

theorem unsupported_code_gets_no_quick_fix:
  "(fst (getCodeActions env c st doc range'
           (ctx \<lparr> codeActionContext.diagnostics := before @ d # after \<rparr>)) = Some S
      \<and> (case toNumber env (diagnostic.code d) of Some k \<Rightarrow> k \<notin> S | None \<Rightarrow> True)
    \<longrightarrow> map_sum id (map (\<lambda>a. a \<lparr> codeAction.diagnostics := None \<rparr>))
          (snd (getCodeActions env c st doc range'
                  (ctx \<lparr> codeActionContext.diagnostics := before @ d # after \<rparr>)))
        = map_sum id (map (\<lambda>a. a \<lparr> codeAction.diagnostics := None \<rparr>))
          (snd (getCodeActions env c st doc range'
                  (ctx \<lparr> codeActionContext.diagnostics := before @ after \<rparr>))))
   \<and> fst (getCodeActions env c None doc range' ctx)
       = Some {n. \<exists>s \<in> set (getSupportedCodeFixes env). Number env s = Some n}
   \<and> fst (getCodeActions env c (Some S) doc range' ctx) = Some S
   \<and> getCodeActions (env \<lparr> getSupportedCodeFixes := other \<rparr>) c (Some S) doc range' context
       = getCodeActions env c (Some S) doc range' context
   \<and> fst (getCodeActions env c (fst (getCodeActions env c st doc range' ctx))
            nextDoc nextRange nextContext)
       = fst (getCodeActions env c st doc range' ctx)"
proof (intro conjI impI)
  assume "fst (getCodeActions env c st doc range'
           (ctx \<lparr> codeActionContext.diagnostics := before @ d # after \<rparr>)) = Some S
      \<and> (case toNumber env (diagnostic.code d) of Some k \<Rightarrow> k \<notin> S | None \<Rightarrow> True)"
  then show "map_sum id (map (\<lambda>a. a \<lparr> codeAction.diagnostics := None \<rparr>))
          (snd (getCodeActions env c st doc range'
                  (ctx \<lparr> codeActionContext.diagnostics := before @ d # after \<rparr>)))
        = map_sum id (map (\<lambda>a. a \<lparr> codeAction.diagnostics := None \<rparr>))
          (snd (getCodeActions env c st doc range'
                  (ctx \<lparr> codeActionContext.diagnostics := before @ after \<rparr>)))"
    using getCodeActions_unsupported by blast
next
  show "fst (getCodeActions env c None doc range' ctx)
       = Some {n. \<exists>s \<in> set (getSupportedCodeFixes env). Number env s = Some n}"
    by (simp add: getCodeActions_fst)
next
  show "fst (getCodeActions env c (Some S) doc range' ctx) = Some S"
    by (simp add: getCodeActions_fst)
next
  show "getCodeActions (env \<lparr> getSupportedCodeFixes := other \<rparr>) c (Some S) doc range' context
       = getCodeActions env c (Some S) doc range' context"
    by (rule getCodeActions_env)
next
  show "fst (getCodeActions env c (fst (getCodeActions env c st doc range' ctx))
            nextDoc nextRange nextContext)
       = fst (getCodeActions env c st doc range' ctx)"
    by (simp add: getCodeActions_fst)
qed


theorem unsupported_code_gets_no_quick_fix_witness:
  "fst (getCodeActions (exEnv exFixService) exConfig None exAppDoc exRange
          (exContext [exDiagnostic 2304, exDiagnostic 9999])) = Some {2304}
   \<and> map_sum id (map (\<lambda>a. a \<lparr> codeAction.diagnostics := None \<rparr>))
         (snd (getCodeActions (exEnv exFixService) exConfig None exAppDoc exRange
                 (exContext [exDiagnostic 2304, exDiagnostic 9999])))
       = map_sum id (map (\<lambda>a. a \<lparr> codeAction.diagnostics := None \<rparr>))
         (snd (getCodeActions (exEnv exFixService) exConfig None exAppDoc exRange
                 (exContext [exDiagnostic 2304])))"
proof -
  have c: "(exContext []) \<lparr> codeActionContext.diagnostics := ds \<rparr> = exContext ds" for ds
    by (simp add: exContext_def)
  have e: "getSupportedCodeFixes (exEnv exFixService) = [''2304'', ''none'']"
    "Number (exEnv exFixService) = (\<lambda>s. if s = ''2304'' then Some 2304 else None)"
    by (simp_all add: exEnv_def)
  have "{n. \<exists>s \<in> set [''2304'', ''none'']. (if s = ''2304'' then Some 2304 else None) = Some n}
          = {2304::int}"
    by auto
  then have h1: "fst (getCodeActions (exEnv exFixService) exConfig None exAppDoc exRange
                   (exContext [exDiagnostic 2304, exDiagnostic 9999])) = Some {2304}"
    by (simp add: getCodeActions_fst e)
  have h2: "case toNumber (exEnv exFixService) (diagnostic.code (exDiagnostic 9999)) of
              Some k \<Rightarrow> k \<notin> {2304} | None \<Rightarrow> True"
    by (simp add: toNumber_def exDiagnostic_def)
  show ?thesis
    using unsupported_code_gets_no_quick_fix
            [where env = "exEnv exFixService" and c = exConfig and st = None and doc = exAppDoc
               and range' = exRange and ctx = "exContext []"
               and before = "[exDiagnostic 2304]" and d = "exDiagnostic 9999" and after = "[]"
               and S = "{2304}"]
          h1 h2
    by (simp add: c)
qed

subsection \<open>The document outline\<close>

lemma allSpans_sel:
  "allSpans item \<longleftrightarrow> spans item \<noteq> [] \<and> list_all allSpans (childItems item)"
  by (cases item) simp











text \<open>An item without a span anywhere in the outline makes the walk of the code throw.\<close>

lemma collect_missing_span:
  "\<not> allSpans item \<Longrightarrow>
     collectSymbols env doc scriptDoc item containerLabel st = Inl TypeError"
  "\<not> list_all allSpans navItems \<Longrightarrow>
     collectChildren env doc scriptDoc navItems containerLabel st = Inl TypeError"
proof (induction env doc scriptDoc item containerLabel st
         and env doc scriptDoc navItems containerLabel st
       rule: collectSymbols_collectChildren.induct)
  case (1 env doc scriptDoc item containerLabel result existing)
  show ?case
  proof (cases "spans item")
    case Nil
    then show ?thesis by simp
  next
    case (Cons sp sps)
    with "1.prems" have ch: "\<not> list_all allSpans (childItems item)"
      using allSpans_sel[of item] by simp
    let ?sig = "text0 item @ navigationBarItem.kind item @ showInt (textSpan.start sp)"
    show ?thesis
    proof (cases "navigationBarItem.kind item \<noteq> ''script'' \<and> ?sig \<notin> set existing")
      case True
      from "1.IH"(1)[OF Cons refl True refl ch] True Cons show ?thesis
        by (simp add: Let_def)
    next
      case False
      from "1.IH"(2)[OF Cons refl False ch] False Cons show ?thesis
        by (auto simp: Let_def)
    qed
  qed
next
  case (2 env doc scriptDoc containerLabel st)
  then show ?case by simp
next
  case (3 env doc scriptDoc child rest containerLabel st)
  have e: "x = TypeError" for x :: error
    by (cases x) simp
  show ?case
  proof (cases "collectSymbols env doc scriptDoc child containerLabel st")
    case (Inl x)
    then show ?thesis by (simp add: e)
  next
    case (Inr st')
    with "3.IH"(1) have "allSpans child"
      by auto
    with "3.prems" have "\<not> list_all allSpans rest"
      by simp
    from "3.IH"(2)[OF Inr this] Inr show ?thesis
      by simp
  qed
qed

lemma findDocumentSymbols_missing_span:
  assumes "updateCurrentVueTextDocument env doc = (scriptDoc, service)"
    and "getProgram service = Some prog"
    and "getFilePath env (textDocument.uri doc) \<in> set (getRootFileNames prog)"
    and "getNavigationBarItems service (getFileFsPath env (textDocument.uri doc)) = Some navItems"
    and "\<not> list_all allSpans navItems"
  shows "findDocumentSymbols env doc = Inl TypeError"
proof -
  have i: "languageServiceIncludesFile env service (textDocument.uri doc) = Inr True"
    using assms(2,3) by (simp add: languageServiceIncludesFile_def)
  show ?thesis
    by (simp add: findDocumentSymbols_def assms(1,4) i collect_missing_span(2)[OF assms(5)])
qed









end
